theory Spec2Isabelle
  imports Main "HOL-Library.Word" "HOL-Library.Sublist" "HOL-Library.Multiset"
begin

section \<open>Strings of the JavaScript runtime\<close>

text \<open>
  A JavaScript string is a sequence of 16-bit code units. The regular expressions of
  \<^verbatim>\<open>src/App.js\<close> carry no \<^verbatim>\<open>u\<close> flag, so matching and replacing work
  on code units. ASCII text is written through \<open>ascii\<close>; the Japanese literals of the
  source are given by their code units.
\<close>

type_synonym jsstring = "16 word list"

definition ascii :: "string \<Rightarrow> jsstring" where
  "ascii s = map (\<lambda>c. of_nat (of_char c)) s"

section \<open>String.prototype.replace with a global literal pattern\<close>

text \<open>
  \<^verbatim>\<open>GetSubstitution(matched, str, position, captures, namedCaptures, replacementTemplate)\<close>
  of ECMA-262 for a pattern without capture groups. \<open>front\<close> is the part of \<open>str\<close> in
  front of \<open>position\<close>, \<open>back\<close> the part behind the match. With no captures, a dollar
  sign followed by digits or by \<^verbatim>\<open><\<close> stands for itself, as does every other
  dollar sign that opens none of the four patterns.
\<close>

fun getSubstitution :: "jsstring \<Rightarrow> jsstring \<Rightarrow> jsstring \<Rightarrow> jsstring \<Rightarrow> jsstring" where
  "getSubstitution matched front back [] = []"
| "getSubstitution matched front back [c] = [c]"
| "getSubstitution matched front back (c # d # r) =
     (if c = 0x24 then
        (if d = 0x24 then 0x24 # getSubstitution matched front back r
         else if d = 0x60 then front @ getSubstitution matched front back r
         else if d = 0x26 then matched @ getSubstitution matched front back r
         else if d = 0x27 then back @ getSubstitution matched front back r
         else c # getSubstitution matched front back (d # r))
      else c # getSubstitution matched front back (d # r))"

text \<open>
  \<^verbatim>\<open>str.replace(/pat/g, replaceValue)\<close> for a pattern that is a literal sequence of
  code units and a replace value that is a string. The scan runs from the left; \<open>front\<close>
  is what has been passed of the original string, \<open>rest\<close> what is still ahead. At a match
  the expanded replace value is emitted and the scan continues behind the match (an empty
  match advances by one code unit, copying it); elsewhere the code unit is copied.
\<close>

function replaceFrom :: "jsstring \<Rightarrow> jsstring \<Rightarrow> jsstring \<Rightarrow> jsstring \<Rightarrow> jsstring" where
  "replaceFrom pat replaceValue front [] =
     (if pat = [] then getSubstitution [] front [] replaceValue else [])"
| "replaceFrom pat replaceValue front (c # cs) =
     (if prefix pat (c # cs) then
        getSubstitution pat front (drop (length pat) (c # cs)) replaceValue @
        (if pat = [] then c # replaceFrom pat replaceValue (front @ [c]) cs
         else replaceFrom pat replaceValue (front @ pat) (drop (length pat) (c # cs)))
      else c # replaceFrom pat replaceValue (front @ [c]) cs)"
  by pat_completeness auto
termination
  by (relation "measure (\<lambda>(pat, replaceValue, front, rest). length rest)") auto

definition replace :: "jsstring \<Rightarrow> jsstring \<Rightarrow> jsstring \<Rightarrow> jsstring" where
  "replace str pat replaceValue = replaceFrom pat replaceValue [] str"

section \<open>The template engine\<close>

record data =
  time :: jsstring
  epicenter :: jsstring
  magnitude :: jsstring
  maxIntensity :: jsstring
  prefecture :: jsstring

definition fillTemplate :: "jsstring \<Rightarrow> data \<Rightarrow> jsstring" where
  "fillTemplate template d =
     replace (replace (replace (replace (replace template
       (ascii ''{time}'') (time d))
       (ascii ''{epicenter}'') (epicenter d))
       (ascii ''{magnitude}'') (magnitude d))
       (ascii ''{maxIntensity}'') (maxIntensity d))
       (ascii ''{prefecture}'') (prefecture d)"


section \<open>Numbers and their string form\<close>

text \<open>
  The decimal digits of a natural number, most significant first, as code units.
\<close>

fun decimalDigits :: "nat \<Rightarrow> jsstring" where
  "decimalDigits n =
     (if n < 10 then [of_nat (48 + n)]
      else decimalDigits (n div 10) @ [of_nat (48 + n mod 10)])"

declare decimalDigits.simps [simp del]

text \<open>
  A Number as \<^verbatim>\<open>JSON.parse\<close> delivers it, kept in the form in which
  \<^verbatim>\<open>Number::toString\<close> of ECMA-262 reads it: \<open>NumFinite neg s n\<close> is the finite
  non-zero number with sign \<open>neg\<close> and value \<open>s * 10 ^ (n - k)\<close>, where \<open>k\<close> is the
  count of digits of \<open>s\<close> and \<open>s\<close> is the shortest digit string that identifies the
  number (so 6.1 is \<open>NumFinite False 61 1\<close>). \<open>NumZero\<close> stands for both zeros, which
  print alike and are both falsy.
\<close>

datatype jsnum = NumNaN | NumZero | NumInfinity bool | NumFinite bool nat int

definition numberToString :: "jsnum \<Rightarrow> jsstring" where
  "numberToString x =
     (case x of
        NumNaN \<Rightarrow> ascii ''NaN''
      | NumZero \<Rightarrow> ascii ''0''
      | NumInfinity neg \<Rightarrow> (if neg then ascii ''-'' else []) @ ascii ''Infinity''
      | NumFinite neg s n \<Rightarrow>
          (if neg then ascii ''-'' else []) @
          (let ds = decimalDigits s; k = int (length ds) in
           if k \<le> n \<and> n \<le> 21 then ds @ replicate (nat (n - k)) 0x30
           else if 0 < n \<and> n \<le> 21 then take (nat n) ds @ ascii ''.'' @ drop (nat n) ds
           else if - 6 < n \<and> n \<le> 0 then ascii ''0.'' @ replicate (nat (- n)) 0x30 @ ds
           else (if k = 1 then ds else take 1 ds @ ascii ''.'' @ drop 1 ds) @
                ascii ''e'' @ (if n - 1 < 0 then ascii ''-'' else ascii ''+'') @
                decimalDigits (nat \<bar>n - 1\<bar>)))"

text \<open>\<^verbatim>\<open>ToBoolean\<close> on a Number: the zeros and NaN are falsy.\<close>

definition numberTruthy :: "jsnum \<Rightarrow> bool" where
  "numberTruthy x = (x \<noteq> NumZero \<and> x \<noteq> NumNaN)"

text \<open>
  The getters of a Date return an integer-valued Number, or NaN for an invalid date:
  \<open>None\<close> is NaN. \<open>integerToString\<close> is the string conversion of a template literal
  and of \<^verbatim>\<open>String(...)\<close> on such a value (plain decimal digits below \<open>10 ^ 21\<close>).
\<close>

definition integerToString :: "int option \<Rightarrow> jsstring" where
  "integerToString x =
     (case x of
        None \<Rightarrow> ascii ''NaN''
      | Some i \<Rightarrow> (if i < 0 then ascii ''-'' @ decimalDigits (nat (- i))
                  else decimalDigits (nat i)))"

text \<open>\<^verbatim>\<open>String.prototype.padStart(maxLength, fillString)\<close>.\<close>

definition padStart :: "jsstring \<Rightarrow> nat \<Rightarrow> jsstring \<Rightarrow> jsstring" where
  "padStart str maxLength fillString =
     (if maxLength \<le> length str \<or> fillString = [] then str
      else take (maxLength - length str)
             (concat (replicate (maxLength - length str) fillString)) @ str)"

section \<open>Dates\<close>

text \<open>
  What \<^verbatim>\<open>new Date(eq.time)\<close> gives: an invalid date, or \<open>Date t y mo d h mi\<close>, a
  date with its time value \<open>t\<close> (milliseconds since the epoch) and its fields in the
  viewer's local time zone: full year, month counted from zero, day of the month, hours
  and minutes. Parsing the time string and the time zone belong to the runtime, so the
  constructor is a parameter \<open>newDate\<close> of everything that calls it.

  The constructor tells a missing time from a null one (the first gives an invalid date,
  the second the epoch), so the \<^verbatim>\<open>time\<close> property of a record is kept as it
  arrives: missing, null, or a string.
\<close>

datatype jsdate = InvalidDate | Date int int int int int int

datatype jstime = TimeMissing | TimeNull | TimeString jsstring

fun getTime :: "jsdate \<Rightarrow> int option" where
  "getTime InvalidDate = None"
| "getTime (Date t y mo d h mi) = Some t"

fun getFullYear :: "jsdate \<Rightarrow> int option" where
  "getFullYear InvalidDate = None"
| "getFullYear (Date t y mo d h mi) = Some y"

fun getMonth :: "jsdate \<Rightarrow> int option" where
  "getMonth InvalidDate = None"
| "getMonth (Date t y mo d h mi) = Some mo"

fun getDate :: "jsdate \<Rightarrow> int option" where
  "getDate InvalidDate = None"
| "getDate (Date t y mo d h mi) = Some d"

fun getHours :: "jsdate \<Rightarrow> int option" where
  "getHours InvalidDate = None"
| "getHours (Date t y mo d h mi) = Some h"

fun getMinutes :: "jsdate \<Rightarrow> int option" where
  "getMinutes InvalidDate = None"
| "getMinutes (Date t y mo d h mi) = Some mi"

text \<open>The fields of a date the runtime can return.\<close>

definition dateInRange :: "jsdate \<Rightarrow> bool" where
  "dateInRange date =
     (case date of
        InvalidDate \<Rightarrow> False
      | Date t y mo d h mi \<Rightarrow>
          0 \<le> mo \<and> mo \<le> 11 \<and> 1 \<le> d \<and> d \<le> 31 \<and> 0 \<le> h \<and> h \<le> 23 \<and> 0 \<le> mi \<and> mi \<le> 59)"

section \<open>Earthquake records\<close>

text \<open>
  One element of the fetched JSON array, with the fields the program reads. \<open>None\<close> is
  a property that is missing or null; the program reads these four properties only
  through their truthiness, which is the same for both.
\<close>

record earthquake =
  eq_id :: jsstring
  eq_time :: jstime
  eq_pref :: "jsstring list option"
  eq_name :: "jsstring option"
  eq_mag :: "jsnum option"
  eq_maxInt :: "jsstring option"

section \<open>The field formatter\<close>

text \<open>Lines 69 to 74: the local date and time of the record.\<close>

definition formattedTime :: "jsdate \<Rightarrow> jsstring" where
  "formattedTime date =
     integerToString (getFullYear date) @ [0x5E74] @
     integerToString (map_option (\<lambda>m. m + 1) (getMonth date)) @ [0x6708] @
     integerToString (getDate date) @ [0x65E5] @ ascii '' '' @
     integerToString (getHours date) @ ascii '':'' @
     padStart (integerToString (getMinutes date)) 2 (ascii ''0'')"

text \<open>\<^verbatim>\<open>x || fallback\<close> on an optional string: a missing, null or empty \<open>x\<close> is falsy.\<close>

definition stringOr :: "jsstring option \<Rightarrow> jsstring \<Rightarrow> jsstring" where
  "stringOr x fallback =
     (case x of None \<Rightarrow> fallback | Some s \<Rightarrow> (if s = [] then fallback else s))"

text \<open>The two markers of lines 78 to 80.\<close>

definition unknownMarker :: jsstring where
  "unknownMarker = [0x4E0D, 0x660E]"

definition unknownMagnitude :: jsstring where
  "unknownMagnitude = [0x004D, 0x4E0D, 0x660E]"

text \<open>Lines 76 to 82: the object \<^verbatim>\<open>data\<close> built from the selected record.\<close>

definition mkData :: "(jstime \<Rightarrow> jsdate) \<Rightarrow> earthquake \<Rightarrow> jsstring \<Rightarrow> data" where
  "mkData newDate selectedEq selectedPref =
     \<lparr> time = formattedTime (newDate (eq_time selectedEq)),
       epicenter = stringOr (eq_name selectedEq) unknownMarker,
       magnitude =
         (case eq_mag selectedEq of
            None \<Rightarrow> unknownMagnitude
          | Some m \<Rightarrow> (if numberTruthy m then ascii ''M'' @ numberToString m
                       else unknownMagnitude)),
       maxIntensity = stringOr (eq_maxInt selectedEq) unknownMarker,
       prefecture = selectedPref \<rparr>"

text \<open>Line 85: the text shown when nothing is selected.\<close>

definition noEarthquake :: jsstring where
  "noEarthquake =
     [0x8A72, 0x5F53, 0x3059, 0x308B, 0x5730, 0x9707, 0x304C, 0x3042, 0x308A, 0x307E,
      0x305B, 0x3093]"

text \<open>
  Lines 66 to 87, the effect on \<^verbatim>\<open>[selectedEq, template, selectedPref]\<close>. It returns
  the value given to \<^verbatim>\<open>setFilled\<close> together with the calls of \<open>fillTemplate\<close> it
  made, each with its arguments.
\<close>

definition filledEffect ::
  "(jstime \<Rightarrow> jsdate) \<Rightarrow> earthquake option \<Rightarrow> jsstring \<Rightarrow> jsstring \<Rightarrow>
   jsstring \<times> (jsstring \<times> data) list" where
  "filledEffect newDate selectedEq template selectedPref =
     (case selectedEq of
        Some eq \<Rightarrow>
          (let d = mkData newDate eq selectedPref
           in (fillTemplate template d, [(template, d)]))
      | None \<Rightarrow> (noEarthquake, []))"

section \<open>The earthquake selector\<close>

text \<open>
  What the \<^verbatim>\<open>try\<close> block of \<open>fetchEarthquakes\<close> can throw: the \<^verbatim>\<open>Error\<close>
  of line 45 or a rejection of the fetch, with its message, and the \<^verbatim>\<open>TypeError\<close> of
  a method call on a missing or null receiver.
\<close>

datatype js_error = Error jsstring | TypeError

text \<open>
  \<^verbatim>\<open>receiver.includes(x)\<close> on an optional array of strings: on a missing or null
  receiver the call throws.
\<close>

definition arrayIncludes :: "jsstring list option \<Rightarrow> jsstring \<Rightarrow> js_error + bool" where
  "arrayIncludes receiver x =
     (case receiver of None \<Rightarrow> Inl TypeError | Some ps \<Rightarrow> Inr (x \<in> set ps))"

text \<open>
  Line 50, the callback \<^verbatim>\<open>(eq) => eq.pref && eq.pref.includes(selectedPref)\<close>: the
  right operand is evaluated only when \<^verbatim>\<open>eq.pref\<close> is truthy (every array is);
  otherwise the falsy left operand is the result.
\<close>

definition prefCallback :: "jsstring \<Rightarrow> earthquake \<Rightarrow> js_error + bool" where
  "prefCallback selectedPref eq =
     (if eq_pref eq \<noteq> None then arrayIncludes (eq_pref eq) selectedPref else Inr False)"

text \<open>\<^verbatim>\<open>Array.prototype.filter\<close> with a callback that may throw.\<close>

fun filterArray :: "('a \<Rightarrow> js_error + bool) \<Rightarrow> 'a list \<Rightarrow> js_error + 'a list" where
  "filterArray f [] = Inr []"
| "filterArray f (x # xs) =
     (case f x of
        Inl e \<Rightarrow> Inl e
      | Inr keep \<Rightarrow>
          (case filterArray f xs of
             Inl e \<Rightarrow> Inl e
           | Inr ys \<Rightarrow> Inr (if keep then x # ys else ys)))"

text \<open>
  Line 51, the comparator \<^verbatim>\<open>(a, b) => new Date(b.time) - new Date(a.time)\<close>: the
  difference of the two time values, NaN (\<open>None\<close>) when one of the dates is invalid.
\<close>

definition compareFn ::
  "(jstime \<Rightarrow> jsdate) \<Rightarrow> earthquake \<Rightarrow> earthquake \<Rightarrow> int option" where
  "compareFn newDate a b =
     (case getTime (newDate (eq_time b)) of
        None \<Rightarrow> None
      | Some tb \<Rightarrow>
          (case getTime (newDate (eq_time a)) of
             None \<Rightarrow> None
           | Some ta \<Rightarrow> Some (tb - ta)))"

text \<open>\<^verbatim>\<open>SortCompare\<close> of ECMA-262: a comparator result of NaN counts as zero.\<close>

definition sortCompare :: "('a \<Rightarrow> 'a \<Rightarrow> int option) \<Rightarrow> 'a \<Rightarrow> 'a \<Rightarrow> int" where
  "sortCompare comparator a b = (case comparator a b of None \<Rightarrow> 0 | Some v \<Rightarrow> v)"

text \<open>
  \<^verbatim>\<open>Array.prototype.sort\<close> is stable. For a consistent comparator the stable sorted
  order is unique, so any stable sorting algorithm gives the result of the runtime; the
  model inserts from the right, an element going in front of the first one that it does
  not follow. For a comparator that is not consistent (here: when a date is invalid) the
  order is left to the implementation by ECMA-262; the model then shows the order of this
  one algorithm, which need not be the order of a given engine.
\<close>

fun insertSorted :: "('a \<Rightarrow> 'a \<Rightarrow> int) \<Rightarrow> 'a \<Rightarrow> 'a list \<Rightarrow> 'a list" where
  "insertSorted cmp x [] = [x]"
| "insertSorted cmp x (y # ys) =
     (if cmp x y \<le> 0 then x # y # ys else y # insertSorted cmp x ys)"

definition sortArray :: "('a \<Rightarrow> 'a \<Rightarrow> int option) \<Rightarrow> 'a list \<Rightarrow> 'a list" where
  "sortArray comparator xs = foldr (insertSorted (sortCompare comparator)) xs []"

text \<open>Lines 49 to 51: the filtered and ordered candidates.\<close>

definition selectCandidates ::
  "(jstime \<Rightarrow> jsdate) \<Rightarrow> earthquake list \<Rightarrow> jsstring \<Rightarrow> js_error + earthquake list" where
  "selectCandidates newDate records selectedPref =
     (case filterArray (prefCallback selectedPref) records of
        Inl e \<Rightarrow> Inl e
      | Inr kept \<Rightarrow> Inr (sortArray (compareFn newDate) kept))"

text \<open>Line 54: the value given to \<^verbatim>\<open>setSelectedEq\<close>.\<close>

definition defaultSelection :: "earthquake list \<Rightarrow> earthquake option" where
  "defaultSelection filtered = (if length filtered > 0 then Some (filtered ! 0) else None)"

text \<open>
  How the request of lines 42 to 46 ends: the fetch is rejected (with the message of the
  rejection), or it delivers a response with its \<^verbatim>\<open>ok\<close> flag, whose
  \<^verbatim>\<open>json()\<close> is rejected (\<open>Inl\<close> the message) or delivers the records.
\<close>

datatype fetch_outcome = Rejected jsstring | Response bool "jsstring + earthquake list"

definition apiError :: jsstring where
  "apiError = [0x0041, 0x0050, 0x0049, 0x63A5, 0x7D9A, 0x30A8, 0x30E9, 0x30FC]"

text \<open>
  Lines 42 to 54, the \<^verbatim>\<open>try\<close> block of \<open>fetchEarthquakes\<close> for the prefecture
  the call was started with: \<open>Inl\<close> what is thrown, \<open>Inr\<close> the values given to
  \<^verbatim>\<open>setEarthquakes\<close> and \<^verbatim>\<open>setSelectedEq\<close>.
\<close>

definition fetchEarthquakes ::
  "(jstime \<Rightarrow> jsdate) \<Rightarrow> jsstring \<Rightarrow> fetch_outcome \<Rightarrow>
   js_error + earthquake list \<times> earthquake option" where
  "fetchEarthquakes newDate selectedPref outcome =
     (case outcome of
        Rejected msg \<Rightarrow> Inl (Error msg)
      | Response ok body \<Rightarrow>
          (if \<not> ok then Inl (Error apiError)
           else (case body of
                   Inl msg \<Rightarrow> Inl (Error msg)
                 | Inr records \<Rightarrow>
                     (case selectCandidates newDate records selectedPref of
                        Inl e \<Rightarrow> Inl e
                      | Inr filtered \<Rightarrow> Inr (filtered, defaultSelection filtered)))))"

section \<open>The application state\<close>

definition PREFECTURES :: "jsstring list" where
  "PREFECTURES =
    [[0x5317, 0x6D77, 0x9053], [0x9752, 0x68EE], [0x5CA9, 0x624B], [0x5BAE, 0x57CE],
     [0x79CB, 0x7530], [0x5C71, 0x5F62], [0x798F, 0x5CF6], [0x8328, 0x57CE],
     [0x6803, 0x6728], [0x7FA4, 0x99AC], [0x57FC, 0x7389], [0x5343, 0x8449],
     [0x6771, 0x4EAC], [0x795E, 0x5948, 0x5DDD], [0x65B0, 0x6F5F], [0x5BCC, 0x5C71],
     [0x77F3, 0x5DDD], [0x798F, 0x4E95], [0x5C71, 0x68A8], [0x9577, 0x91CE],
     [0x5C90, 0x961C], [0x9759, 0x5CA1], [0x611B, 0x77E5], [0x4E09, 0x91CD],
     [0x6ECB, 0x8CC0], [0x4EAC, 0x90FD], [0x5927, 0x962A], [0x5175, 0x5EAB],
     [0x5948, 0x826F], [0x548C, 0x6B4C, 0x5C71], [0x9CE5, 0x53D6], [0x5CF6, 0x6839],
     [0x5CA1, 0x5C71], [0x5E83, 0x5CF6], [0x5C71, 0x53E3], [0x5FB3, 0x5CF6],
     [0x9999, 0x5DDD], [0x611B, 0x5A9B], [0x9AD8, 0x77E5], [0x798F, 0x5CA1],
     [0x4F50, 0x8CC0], [0x9577, 0x5D0E], [0x718A, 0x672C], [0x5927, 0x5206],
     [0x5BAE, 0x5D0E], [0x9E7F, 0x5150, 0x5CF6], [0x6C96, 0x7E04]]"

text \<open>Line 30: the template the editor starts with.\<close>

definition defaultTemplate :: jsstring where
  "defaultTemplate =
     [0x3010, 0x5730, 0x9707, 0x60C5, 0x5831, 0x3011] @ ascii ''{time} '' @
     [0x767A, 0x751F, 0x3002, 0x9707, 0x6E90, 0x5730, 0x306F] @ ascii '' {epicenter}'' @
     [0x3001] @ ascii ''M{magnitude}'' @ [0x3001, 0x6700, 0x5927, 0x9707, 0x5EA6] @
     ascii '' {maxIntensity}'' @ [0x3002, 0xFF08] @ ascii ''{prefecture}'' @
     [0x770C, 0x5E81, 0x6240, 0x5728, 0x5730, 0xFF09]"

text \<open>
  The seven state variables of \<open>App\<close> (lines 26 to 34). \<open>error\<close> keeps the error whose
  message the source stores. \<open>pending\<close> lists the calls of \<open>fetchEarthquakes\<close> that
  wait for their response, each by the \<open>selectedPref\<close> its closure holds.
\<close>

record app_state =
  selectedPref :: jsstring
  earthquakes :: "earthquake list"
  selectedEq :: "earthquake option"
  template :: jsstring
  filled :: jsstring
  loading :: bool
  error :: "js_error option"
  pending :: "jsstring list"

definition initialState :: app_state where
  "initialState =
     \<lparr> selectedPref = PREFECTURES ! 0, earthquakes = [], selectedEq = None,
       template = defaultTemplate, filled = [], loading = False, error = None,
       pending = [] \<rparr>"

text \<open>
  The first effect (lines 37 to 63) up to its \<^verbatim>\<open>await\<close>, and the second effect
  (lines 66 to 87).
\<close>

definition startFetch :: "app_state \<Rightarrow> app_state" where
  "startFetch s = s\<lparr>loading := True, error := None, pending := pending s @ [selectedPref s]\<rparr>"

definition runFilledEffect :: "(jstime \<Rightarrow> jsdate) \<Rightarrow> app_state \<Rightarrow> app_state" where
  "runFilledEffect newDate s =
     s\<lparr>filled := fst (filledEffect newDate (selectedEq s) (template s) (selectedPref s))\<rparr>"

text \<open>The state once the effects of the first render have run.\<close>

definition mounted :: "(jstime \<Rightarrow> jsdate) \<Rightarrow> app_state" where
  "mounted newDate = runFilledEffect newDate (startFetch initialState)"

text \<open>
  What happens afterwards: the user picks a prefecture (line 106), a pending request
  ends, the user picks an earthquake by its id (lines 125 to 128), or edits the template
  (line 153). Each event is taken up to the point where the effects it triggers have run.
\<close>

datatype event =
    ChangePref jsstring
  | FetchSettled nat fetch_outcome
  | SelectEq jsstring
  | EditTemplate jsstring

text \<open>\<^verbatim>\<open>!loading && !error\<close> of line 119: an error with an empty message is falsy.\<close>

definition panelShown :: "app_state \<Rightarrow> bool" where
  "panelShown s =
     (\<not> loading s \<and>
      (case error s of None \<Rightarrow> True | Some (Error msg) \<Rightarrow> msg = [] | Some TypeError \<Rightarrow> False))"

definition enabled :: "app_state \<Rightarrow> event \<Rightarrow> bool" where
  "enabled s ev =
     (case ev of
        ChangePref p \<Rightarrow> p \<in> set PREFECTURES
      | FetchSettled i outcome \<Rightarrow> i < length (pending s)
      | SelectEq v \<Rightarrow> panelShown s \<and> v \<in> set (map eq_id (earthquakes s))
      | EditTemplate t \<Rightarrow> panelShown s)"

definition step :: "(jstime \<Rightarrow> jsdate) \<Rightarrow> app_state \<Rightarrow> event \<Rightarrow> app_state" where
  "step newDate s ev =
     (case ev of
        ChangePref p \<Rightarrow>
          (if p = selectedPref s then s
           else runFilledEffect newDate (startFetch (s\<lparr>selectedPref := p\<rparr>)))
      | FetchSettled i outcome \<Rightarrow>
          (let s1 = s\<lparr>pending := take i (pending s) @ drop (Suc i) (pending s)\<rparr> in
           case fetchEarthquakes newDate (pending s ! i) outcome of
             Inl e \<Rightarrow> s1\<lparr>error := Some e, loading := False\<rparr>
           | Inr (filtered, sel) \<Rightarrow>
               runFilledEffect newDate
                 (s1\<lparr>earthquakes := filtered, selectedEq := sel, loading := False\<rparr>))
      | SelectEq v \<Rightarrow>
          runFilledEffect newDate
            (s\<lparr>selectedEq := find (\<lambda>eq. eq_id eq = v) (earthquakes s)\<rparr>)
      | EditTemplate t \<Rightarrow> runFilledEffect newDate (s\<lparr>template := t\<rparr>))"

inductive reachable :: "(jstime \<Rightarrow> jsdate) \<Rightarrow> app_state \<Rightarrow> bool"
  for newDate :: "jstime \<Rightarrow> jsdate" where
  reachable_mounted: "reachable newDate (mounted newDate)"
| reachable_step: "reachable newDate s \<Longrightarrow> enabled s ev \<Longrightarrow> reachable newDate (step newDate s ev)"

section \<open>The candidates, in the words of the specification\<close>

text \<open>
  The affected-prefecture set of a record contains the prefecture as an exact string
  match. A record without such a set contains none.
\<close>

definition hasPrefecture :: "jsstring \<Rightarrow> earthquake \<Rightarrow> bool" where
  "hasPrefecture p eq = (case eq_pref eq of None \<Rightarrow> False | Some ps \<Rightarrow> p \<in> set ps)"

section \<open>The time pattern, in the words of the specification\<close>

text \<open>
  A number below one hundred written without padding, and written with two digits.
\<close>

definition unpadded :: "nat \<Rightarrow> jsstring" where
  "unpadded n =
     (if n < 10 then [of_nat (48 + n)] else [of_nat (48 + n div 10), of_nat (48 + n mod 10)])"

definition twoDigits :: "nat \<Rightarrow> jsstring" where
  "twoDigits n = [of_nat (48 + n div 10), of_nat (48 + n mod 10)]"

text \<open>
  The pattern of the time field: the year (with its sign), the month, the day and the
  hour without padding, and the minute with two digits.
\<close>

definition timePattern :: "int \<Rightarrow> nat \<Rightarrow> nat \<Rightarrow> nat \<Rightarrow> nat \<Rightarrow> jsstring" where
  "timePattern y mo d h mi =
     (if y < 0 then 0x2D # decimalDigits (nat (- y)) else decimalDigits (nat y)) @
     [0x5E74] @ unpadded mo @ [0x6708] @ unpadded d @ [0x65E5, 0x20] @
     unpadded h @ [0x3A] @ twoDigits mi"

section \<open>The template engine, in the words of the specification\<close>

text \<open>
  The five tokens with the field values that belong to them.
\<close>

definition tokenTable :: "data \<Rightarrow> (jsstring \<times> jsstring) list" where
  "tokenTable F =
     [(ascii ''{time}'', time F),
      (ascii ''{epicenter}'', epicenter F),
      (ascii ''{magnitude}'', magnitude F),
      (ascii ''{maxIntensity}'', maxIntensity F),
      (ascii ''{prefecture}'', prefecture F)]"

text \<open>
  One pass over the template from the left: where a token of the table begins, its value
  is written as it is and the pass goes on behind the token; every other code unit is
  copied. What has been written is never read again.
\<close>

function onePass :: "(jsstring \<times> jsstring) list \<Rightarrow> jsstring \<Rightarrow> jsstring" where
  "onePass table [] = []"
| "onePass table (c # cs) =
     (case find (\<lambda>(tok, v). tok \<noteq> [] \<and> prefix tok (c # cs)) table of
        Some (tok, v) \<Rightarrow> v @ onePass table (drop (length tok) (c # cs))
      | None \<Rightarrow> c # onePass table cs)"
  by pat_completeness auto
termination
  by (relation "measure (\<lambda>(table, s). length s)") (auto simp: find_Some_iff)

definition render_spec :: "jsstring \<Rightarrow> data \<Rightarrow> jsstring" where
  "render_spec T F = onePass (tokenTable F) T"

text \<open>
  A field value that the chain of replacements of the source leaves alone: it has no
  dollar sign and no brace, and it is not a part of a token (so it is not empty).
\<close>

definition plainValue :: "jsstring \<Rightarrow> bool" where
  "plainValue v =
     (0x24 \<notin> set v \<and> 0x7B \<notin> set v \<and> 0x7D \<notin> set v \<and>
      \<not> sublist v (ascii ''{time}'') \<and> \<not> sublist v (ascii ''{epicenter}'') \<and>
      \<not> sublist v (ascii ''{magnitude}'') \<and> \<not> sublist v (ascii ''{maxIntensity}'') \<and>
      \<not> sublist v (ascii ''{prefecture}''))"

text \<open>
  The chain of replacements of \<open>fillTemplate\<close> over a table of patterns and values, and
  the two conditions under which it is compared with the single pass: a token is an opening
  brace, then code units other than an opening brace, the last one a closing brace; a
  value fits a token when it has no dollar sign and no brace and is not a part of it.
\<close>

definition replaceChain :: "(jsstring \<times> jsstring) list \<Rightarrow> jsstring \<Rightarrow> jsstring" where
  "replaceChain table s = foldl (\<lambda>str (tok, v). replace str tok v) s table"

definition tokenLike :: "jsstring \<Rightarrow> bool" where
  "tokenLike t =
     (case t of [] \<Rightarrow> False | c # w \<Rightarrow> c = 0x7B \<and> w \<noteq> [] \<and> 0x7B \<notin> set w \<and> last w = 0x7D)"

definition valueFits :: "jsstring \<Rightarrow> jsstring \<Rightarrow> bool" where
  "valueFits v t = (0x24 \<notin> set v \<and> 0x7B \<notin> set v \<and> 0x7D \<notin> set v \<and> \<not> sublist v t)"

definition fitTable :: "(jsstring \<times> jsstring) list \<Rightarrow> bool" where
  "fitTable table =
     (\<forall>(t, v) \<in> set table. tokenLike t \<and>
        (\<forall>(t', v') \<in> set table.
           valueFits v t' \<and> (t \<noteq> t' \<longrightarrow> \<not> prefix t t' \<and> \<not> prefix t' t)))"

section \<open>Example inputs\<close>

text \<open>
  A runtime in the time zone of Japan, on the values the examples use: a missing time
  gives an invalid date, a null time the epoch, and two time strings are read as their
  dates. Every other string is taken to give an invalid date, as the runtime does for
  the string of \<open>quakeX\<close> below, whose month is 13.
\<close>

definition exampleNewDate :: "jstime \<Rightarrow> jsdate" where
  "exampleNewDate t =
     (case t of
        TimeMissing \<Rightarrow> InvalidDate
      | TimeNull \<Rightarrow> Date 0 1970 0 1 9 0
      | TimeString s \<Rightarrow>
          (if s = ascii ''2025-03-15T14:30:00+09:00'' then Date 1742016600000 2025 2 15 14 30
           else if s = ascii ''2025-03-14T09:05:00+09:00'' then Date 1741910700000 2025 2 14 9 5
           else InvalidDate))"

definition tokyo :: jsstring where
  "tokyo = [0x6771, 0x4EAC]"

definition aomori :: jsstring where
  "aomori = [0x9752, 0x68EE]"

definition hokkaido :: jsstring where
  "hokkaido = [0x5317, 0x6D77, 0x9053]"

definition quakeA :: earthquake where
  "quakeA =
     \<lparr> eq_id = ascii ''20250315143000'',
       eq_time = TimeString (ascii ''2025-03-15T14:30:00+09:00''),
       eq_pref = Some [hokkaido, tokyo],
       eq_name = Some [0x4E09, 0x9678, 0x6C96],
       eq_mag = Some (NumFinite False 61 1),
       eq_maxInt = Some (ascii ''4'') \<rparr>"

definition quakeB :: earthquake where
  "quakeB =
     \<lparr> eq_id = ascii ''20250314090500'',
       eq_time = TimeString (ascii ''2025-03-14T09:05:00+09:00''),
       eq_pref = Some [tokyo],
       eq_name = Some [],
       eq_mag = Some NumZero,
       eq_maxInt = Some [] \<rparr>"

definition quakeC :: earthquake where
  "quakeC =
     \<lparr> eq_id = ascii ''20250313000000'',
       eq_time = TimeMissing,
       eq_pref = None,
       eq_name = None,
       eq_mag = None,
       eq_maxInt = None \<rparr>"

text \<open>A record for Tokyo whose time string no runtime reads as a date.\<close>

definition quakeX :: earthquake where
  "quakeX =
     \<lparr> eq_id = ascii ''20250314120000'',
       eq_time = TimeString (ascii ''2025-13-01T12:00:00+09:00''),
       eq_pref = Some [tokyo],
       eq_name = Some [0x4E09, 0x9678, 0x6C96],
       eq_mag = Some (NumFinite False 35 1),
       eq_maxInt = Some (ascii ''2'') \<rparr>"

text \<open>The time value the example runtime gives a record, zero for an invalid date.\<close>

definition exampleTimeValue :: "earthquake \<Rightarrow> int" where
  "exampleTimeValue e = (case getTime (exampleNewDate (eq_time e)) of None \<Rightarrow> 0 | Some t \<Rightarrow> t)"

definition okinawa :: jsstring where
  "okinawa = [0x6C96, 0x7E04]"

text \<open>
  After the first response has arrived for the first prefecture, the user picks another
  prefecture; in \<open>failedState\<close> the request for it has then failed.
\<close>

definition loadedState :: app_state where
  "loadedState =
     step exampleNewDate (mounted exampleNewDate)
       (FetchSettled 0 (Response True (Inr [quakeB, quakeC, quakeA])))"

definition staleState :: app_state where
  "staleState = step exampleNewDate loadedState (ChangePref aomori)"

definition failedState :: app_state where
  "failedState = step exampleNewDate staleState (FetchSettled 0 (Response False (Inr [])))"

text \<open>The user picks a prefecture without earthquakes, and the response arrives.\<close>

definition emptyState :: app_state where
  "emptyState =
     step exampleNewDate (step exampleNewDate loadedState (ChangePref okinawa))
       (FetchSettled 0 (Response True (Inr [quakeB, quakeC, quakeA])))"

section \<open>Token-free templates\<close>

lemma ascii_Nil: "ascii [] = []"
  by (simp add: ascii_def)

lemma ascii_Cons: "ascii (c # cs) = of_nat (of_char c) # ascii cs"
  by (simp add: ascii_def)

lemma replaceFrom_no_match:
  "pat \<noteq> [] \<Longrightarrow> \<not> sublist pat rest \<Longrightarrow> replaceFrom pat v front rest = rest"
  by (induction rest arbitrary: front) (auto simp: sublist_Cons_right)

lemma replace_no_match:
  "pat \<noteq> [] \<Longrightarrow> \<not> sublist pat str \<Longrightarrow> replace str pat v = str"
  by (simp add: replace_def replaceFrom_no_match)

text \<open>
  C7. A template in which none of the five tokens occurs is returned as it is, whatever
  the field values are: unknown tokens and stray braces pass through.
\<close>

theorem fillTemplate_token_free:
  assumes "\<not> sublist (ascii ''{time}'') T"
    and "\<not> sublist (ascii ''{epicenter}'') T"
    and "\<not> sublist (ascii ''{magnitude}'') T"
    and "\<not> sublist (ascii ''{maxIntensity}'') T"
    and "\<not> sublist (ascii ''{prefecture}'') T"
  shows "fillTemplate T F = T"
  using assms by (simp add: fillTemplate_def replace_no_match ascii_Cons)

theorem fillTemplate_token_free_witness:
  "\<not> sublist (ascii ''{time}'') (ascii ''{tim} {Time} {unknown} }{ $& {time'') \<and>
   \<not> sublist (ascii ''{epicenter}'') (ascii ''{tim} {Time} {unknown} }{ $& {time'') \<and>
   \<not> sublist (ascii ''{magnitude}'') (ascii ''{tim} {Time} {unknown} }{ $& {time'') \<and>
   \<not> sublist (ascii ''{maxIntensity}'') (ascii ''{tim} {Time} {unknown} }{ $& {time'') \<and>
   \<not> sublist (ascii ''{prefecture}'') (ascii ''{tim} {Time} {unknown} }{ $& {time'') \<and>
   fillTemplate (ascii ''{tim} {Time} {unknown} }{ $& {time'')
     \<lparr>time = ascii ''$&'', epicenter = ascii ''{time}'', magnitude = ascii ''M6.1'',
      maxIntensity = ascii ''5'', prefecture = tokyo\<rparr>
   = ascii ''{tim} {Time} {unknown} }{ $& {time''"
proof -
  have h1: "\<not> sublist (ascii ''{time}'') (ascii ''{tim} {Time} {unknown} }{ $& {time'')"
    by (simp add: ascii_def sublist_Cons_right)
  have h2: "\<not> sublist (ascii ''{epicenter}'') (ascii ''{tim} {Time} {unknown} }{ $& {time'')"
    by (simp add: ascii_def sublist_Cons_right)
  have h3: "\<not> sublist (ascii ''{magnitude}'') (ascii ''{tim} {Time} {unknown} }{ $& {time'')"
    by (simp add: ascii_def sublist_Cons_right)
  have h4: "\<not> sublist (ascii ''{maxIntensity}'') (ascii ''{tim} {Time} {unknown} }{ $& {time'')"
    by (simp add: ascii_def sublist_Cons_right)
  have h5: "\<not> sublist (ascii ''{prefecture}'') (ascii ''{tim} {Time} {unknown} }{ $& {time'')"
    by (simp add: ascii_def sublist_Cons_right)
  from h1 h2 h3 h4 h5 fillTemplate_token_free [OF h1 h2 h3 h4 h5] show ?thesis
    by blast
qed

section \<open>Digits\<close>

lemma decimalDigits_numeral [simp]:
  "decimalDigits (numeral k) =
     (if (numeral k :: nat) < 10 then [of_nat (48 + numeral k)]
      else decimalDigits (numeral k div 10) @ [of_nat (48 + numeral k mod 10)])"
  by (rule decimalDigits.simps)

lemma decimalDigits_0 [simp]: "decimalDigits 0 = [0x30]"
  by (simp add: decimalDigits.simps)

lemma decimalDigits_1 [simp]: "decimalDigits (Suc 0) = [0x31]"
  by (simp add: decimalDigits.simps)

lemma decimalDigits_below_10: "n < 10 \<Longrightarrow> decimalDigits n = [of_nat (48 + n)]"
  by (simp add: decimalDigits.simps)

lemma decimalDigits_below_100:
  "10 \<le> n \<Longrightarrow> n < 100 \<Longrightarrow> decimalDigits n = [of_nat (48 + n div 10), of_nat (48 + n mod 10)]"
  by (subst decimalDigits.simps) (simp add: decimalDigits_below_10)

lemma decimalDigits_unpadded: "n < 100 \<Longrightarrow> decimalDigits n = unpadded n"
  by (simp add: unpadded_def decimalDigits_below_10 decimalDigits_below_100)

lemma padStart_minutes: "n < 60 \<Longrightarrow> padStart (decimalDigits n) 2 (ascii ''0'') = twoDigits n"
  by (cases "n < 10")
     (simp_all add: padStart_def twoDigits_def decimalDigits_below_10 decimalDigits_below_100 ascii_def)

section \<open>The field formatter\<close>

text \<open>
  C6, as amended. For a record whose time the runtime reads as a valid date, the time
  field is the year, the month (counted from one), the day and the hour without padding,
  and the minute with two digits, in the pattern of the source. The hypotheses say what
  the date is and that its fields are in the ranges of a Date.
\<close>

theorem formattedTime_pattern:
  assumes "newDate (eq_time e) = Date t y mo d h mi"
    and "dateInRange (Date t y mo d h mi)"
  shows "time (mkData newDate e p) = timePattern y (nat (mo + 1)) (nat d) (nat h) (nat mi)"
proof -
  from assms(2) have r: "0 \<le> mo" "mo \<le> 11" "1 \<le> d" "d \<le> 31" "0 \<le> h" "h \<le> 23" "0 \<le> mi" "mi \<le> 59"
    by (simp_all add: dateInRange_def)
  have mo: "integerToString (Some (mo + 1)) = unpadded (nat (mo + 1))"
    using r by (simp add: integerToString_def decimalDigits_unpadded)
  have d: "integerToString (Some d) = unpadded (nat d)"
    using r by (simp add: integerToString_def decimalDigits_unpadded)
  have h: "integerToString (Some h) = unpadded (nat h)"
    using r by (simp add: integerToString_def decimalDigits_unpadded)
  have mi: "padStart (integerToString (Some mi)) 2 (ascii ''0'') = twoDigits (nat mi)"
    using r by (simp add: integerToString_def padStart_minutes)
  have y: "integerToString (Some y) =
             (if y < 0 then 0x2D # decimalDigits (nat (- y)) else decimalDigits (nat y))"
    by (simp add: integerToString_def ascii_def)
  show ?thesis
    by (simp add: mkData_def formattedTime_def timePattern_def assms(1) mo d h mi y)
       (simp add: ascii_def)
qed

theorem formattedTime_pattern_witness:
  "exampleNewDate (eq_time quakeB) = Date 1741910700000 2025 2 14 9 5 \<and>
   dateInRange (Date 1741910700000 2025 2 14 9 5) \<and>
   time (mkData exampleNewDate quakeB tokyo) =
     ascii ''2025'' @ [0x5E74] @ ascii ''3'' @ [0x6708] @ ascii ''14'' @ [0x65E5] @ ascii '' 9:05''"
proof -
  have h1: "exampleNewDate (eq_time quakeB) = Date 1741910700000 2025 2 14 9 5"
    by (simp add: exampleNewDate_def quakeB_def ascii_def)
  have h2: "dateInRange (Date 1741910700000 2025 2 14 9 5)"
    by (simp add: dateInRange_def)
  from formattedTime_pattern [of exampleNewDate quakeB 1741910700000 2025 2 14 9 5 tokyo] h1 h2
  show ?thesis
    by (simp add: timePattern_def unpadded_def twoDigits_def ascii_def)
qed

lemma last_timePattern: "last (timePattern y mo d h mi) = of_nat (48 + mi mod 10)"
  by (simp add: timePattern_def twoDigits_def)

lemma digit_not_letter_N: "(of_nat (48 + n mod 10) :: 16 word) \<noteq> 0x4E"
proof
  assume a: "(of_nat (48 + n mod 10) :: 16 word) = 0x4E"
  have "(48 + n mod 10) mod 2 ^ 16 = 48 + n mod 10"
    by (rule mod_less) (simp add: less_le_trans [of "n mod 10" 10])
  then have "unat (of_nat (48 + n mod 10) :: 16 word) = 48 + n mod 10"
    by (simp only: unat_of_nat len_bit0 len_num1 mult_1_right) simp
  with a have "48 + n mod 10 = 78" by simp
  then show False by presburger
qed

text \<open>
  C6 as stated fails for a record whose time string the runtime does not read as a date,
  and for a record without a time: every part of the time field is NaN, the minute too,
  and the field has the pattern for no year, month, day, hour and minute.
\<close>

theorem unreadable_time_counterexample:
  "exampleNewDate (eq_time quakeX) = InvalidDate \<and>
   time (mkData exampleNewDate quakeX tokyo) =
     ascii ''NaN'' @ [0x5E74] @ ascii ''NaN'' @ [0x6708] @ ascii ''NaN'' @ [0x65E5] @
     ascii '' NaN:NaN'' \<and>
   \<not> (\<exists>y mo d h mi. time (mkData exampleNewDate quakeX tokyo) = timePattern y mo d h mi) \<and>
   eq_time quakeC = TimeMissing \<and>
   time (mkData exampleNewDate quakeC tokyo) = time (mkData exampleNewDate quakeX tokyo)"
proof -
  have x: "exampleNewDate (eq_time quakeX) = InvalidDate"
    by (simp add: exampleNewDate_def quakeX_def ascii_def)
  have c: "exampleNewDate (eq_time quakeC) = InvalidDate"
    by (simp add: exampleNewDate_def quakeC_def)
  have nan: "formattedTime InvalidDate =
     ascii ''NaN'' @ [0x5E74] @ ascii ''NaN'' @ [0x6708] @ ascii ''NaN'' @ [0x65E5] @
     ascii '' NaN:NaN''"
    by (simp add: formattedTime_def integerToString_def padStart_def ascii_def)
  have tx: "time (mkData exampleNewDate quakeX tokyo) = formattedTime InvalidDate"
    by (simp add: mkData_def x)
  have tc: "time (mkData exampleNewDate quakeC tokyo) = formattedTime InvalidDate"
    by (simp add: mkData_def c)
  have "last (formattedTime InvalidDate) = 0x4E"
    by (simp add: nan ascii_def)
  then have no: "\<not> (\<exists>y mo d h mi. formattedTime InvalidDate = timePattern y mo d h mi)"
    using last_timePattern digit_not_letter_N by metis
  have m: "eq_time quakeC = TimeMissing"
    by (simp add: quakeC_def)
  from x nan no tx tc m show ?thesis
    by simp
qed

text \<open>
  C3, as amended. The magnitude field is the marker for an unknown magnitude when the
  record has no magnitude, and the letter M followed by the magnitude when the record
  has one that is neither zero nor NaN. For every record it is a string that is not
  empty and begins with M.
\<close>

theorem magnitude_field:
  "(eq_mag e = None \<longrightarrow> magnitude (mkData newDate e p) = [0x4D, 0x4E0D, 0x660E]) \<and>
   (\<forall>m. eq_mag e = Some m \<and> m \<noteq> NumZero \<and> m \<noteq> NumNaN \<longrightarrow>
        magnitude (mkData newDate e p) = 0x4D # numberToString m) \<and>
   magnitude (mkData newDate e p) \<noteq> [] \<and> hd (magnitude (mkData newDate e p)) = 0x4D"
proof -
  have absent: "eq_mag e = None \<longrightarrow> magnitude (mkData newDate e p) = [0x4D, 0x4E0D, 0x660E]"
    by (simp add: mkData_def unknownMagnitude_def)
  have present: "\<forall>m. eq_mag e = Some m \<and> m \<noteq> NumZero \<and> m \<noteq> NumNaN \<longrightarrow>
        magnitude (mkData newDate e p) = 0x4D # numberToString m"
    by (simp add: mkData_def numberTruthy_def ascii_def)
  have shape: "magnitude (mkData newDate e p) \<noteq> [] \<and> hd (magnitude (mkData newDate e p)) = 0x4D"
    by (cases "eq_mag e") (simp_all add: mkData_def unknownMagnitude_def ascii_def)
  from absent present shape show ?thesis by blast
qed

theorem magnitude_field_witness:
  "eq_mag quakeC = None \<and>
   magnitude (mkData exampleNewDate quakeC tokyo) = [0x4D, 0x4E0D, 0x660E] \<and>
   eq_mag quakeA = Some (NumFinite False 61 1) \<and>
   magnitude (mkData exampleNewDate quakeA tokyo) = ascii ''M6.1''"
proof -
  have h1: "eq_mag quakeC = None"
    by (simp add: quakeC_def)
  have h2: "eq_mag quakeA = Some (NumFinite False 61 1) \<and> NumFinite False 61 1 \<noteq> NumZero \<and>
            NumFinite False 61 1 \<noteq> NumNaN"
    by (simp add: quakeA_def)
  have n: "numberToString (NumFinite False 61 1) = ascii ''6.1''"
    by (simp add: numberToString_def ascii_def)
  from magnitude_field [of quakeC exampleNewDate tokyo] magnitude_field [of quakeA exampleNewDate tokyo]
    h1 h2 n show ?thesis
    by (simp add: ascii_def)
qed

text \<open>
  C3 as stated fails for a record whose magnitude is present and zero: the field is the
  marker for an unknown magnitude, not M0.
\<close>

theorem magnitude_zero_counterexample:
  "eq_mag quakeB = Some NumZero \<and>
   numberToString NumZero = ascii ''0'' \<and>
   magnitude (mkData exampleNewDate quakeB tokyo) = [0x4D, 0x4E0D, 0x660E] \<and>
   magnitude (mkData exampleNewDate quakeB tokyo) \<noteq> ascii ''M'' @ numberToString NumZero"
  by (simp add: mkData_def quakeB_def numberTruthy_def numberToString_def unknownMagnitude_def ascii_def)

text \<open>
  C9. A magnitude of zero, an empty epicenter name and an empty maximum intensity give
  the same fields as a record without them: the fallback markers.
\<close>

theorem falsy_fields_as_absent:
  "mkData newDate (e\<lparr>eq_mag := Some NumZero\<rparr>) p = mkData newDate (e\<lparr>eq_mag := None\<rparr>) p \<and>
   magnitude (mkData newDate (e\<lparr>eq_mag := Some NumZero\<rparr>) p) = [0x4D, 0x4E0D, 0x660E] \<and>
   mkData newDate (e\<lparr>eq_name := Some []\<rparr>) p = mkData newDate (e\<lparr>eq_name := None\<rparr>) p \<and>
   epicenter (mkData newDate (e\<lparr>eq_name := Some []\<rparr>) p) = [0x4E0D, 0x660E] \<and>
   mkData newDate (e\<lparr>eq_maxInt := Some []\<rparr>) p = mkData newDate (e\<lparr>eq_maxInt := None\<rparr>) p \<and>
   maxIntensity (mkData newDate (e\<lparr>eq_maxInt := Some []\<rparr>) p) = [0x4E0D, 0x660E]"
  by (simp add: mkData_def stringOr_def numberTruthy_def unknownMagnitude_def unknownMarker_def)

theorem falsy_fields_as_absent_witness:
  "mkData exampleNewDate (quakeA\<lparr>eq_mag := Some NumZero\<rparr>) tokyo =
     mkData exampleNewDate (quakeA\<lparr>eq_mag := None\<rparr>) tokyo \<and>
   magnitude (mkData exampleNewDate (quakeA\<lparr>eq_mag := Some NumZero\<rparr>) tokyo) = [0x4D, 0x4E0D, 0x660E] \<and>
   mkData exampleNewDate (quakeA\<lparr>eq_name := Some []\<rparr>) tokyo =
     mkData exampleNewDate (quakeA\<lparr>eq_name := None\<rparr>) tokyo \<and>
   epicenter (mkData exampleNewDate (quakeA\<lparr>eq_name := Some []\<rparr>) tokyo) = [0x4E0D, 0x660E] \<and>
   mkData exampleNewDate (quakeA\<lparr>eq_maxInt := Some []\<rparr>) tokyo =
     mkData exampleNewDate (quakeA\<lparr>eq_maxInt := None\<rparr>) tokyo \<and>
   maxIntensity (mkData exampleNewDate (quakeA\<lparr>eq_maxInt := Some []\<rparr>) tokyo) = [0x4E0D, 0x660E]"
  by (rule falsy_fields_as_absent)

section \<open>The earthquake selector\<close>

lemma prefCallback_hasPrefecture: "prefCallback p e = Inr (hasPrefecture p e)"
  by (cases "eq_pref e") (simp_all add: prefCallback_def hasPrefecture_def arrayIncludes_def)

lemma filterArray_prefCallback:
  "filterArray (prefCallback p) records = Inr (filter (hasPrefecture p) records)"
  by (induction records) (simp_all add: prefCallback_hasPrefecture)

lemma mset_insertSorted: "mset (insertSorted cmp x ys) = add_mset x (mset ys)"
  by (induction ys) simp_all

lemma mset_sortArray: "mset (sortArray comparator xs) = mset xs"
  by (induction xs) (simp_all add: sortArray_def mset_insertSorted)

lemma set_sortArray: "set (sortArray comparator xs) = set xs"
  using mset_sortArray [of comparator xs] by (metis set_mset_mset)

lemma selectCandidates_eq:
  "selectCandidates newDate records p =
     Inr (sortArray (compareFn newDate) (filter (hasPrefecture p) records))"
  by (simp add: selectCandidates_def filterArray_prefCallback)

lemma sorted_insertSorted:
  assumes "\<forall>y \<in> set ys. (cmp x y \<le> 0) = (tv y \<le> tv x)"
    and "sorted_wrt (\<lambda>a b. tv b \<le> (tv a :: int)) ys"
  shows "sorted_wrt (\<lambda>a b. tv b \<le> tv a) (insertSorted cmp x ys)"
  using assms
proof (induction ys)
  case Nil
  then show ?case by simp
next
  case (Cons y ys)
  show ?case
  proof (cases "cmp x y \<le> 0")
    case True
    with Cons.prems have "tv y \<le> tv x" by simp
    moreover from Cons.prems have "\<forall>z \<in> set ys. tv z \<le> tv y" by simp
    ultimately have "\<forall>z \<in> set (y # ys). tv z \<le> tv x" by force
    with True Cons.prems show ?thesis by simp
  next
    case False
    with Cons.prems have "tv x \<le> tv y" by simp
    moreover from Cons.prems have "\<forall>z \<in> set ys. tv z \<le> tv y" by simp
    ultimately have "\<forall>z \<in> set (insertSorted cmp x ys). tv z \<le> tv y"
      using mset_insertSorted [of cmp x ys] by (metis insert_iff set_mset_add_mset_insert set_mset_mset)
    moreover from Cons have "sorted_wrt (\<lambda>a b. tv b \<le> tv a) (insertSorted cmp x ys)" by simp
    ultimately show ?thesis using False by simp
  qed
qed

lemma sortCompare_compareFn:
  "getTime (newDate (eq_time a)) = Some ta \<Longrightarrow> getTime (newDate (eq_time b)) = Some tb \<Longrightarrow>
   sortCompare (compareFn newDate) a b = tb - ta"
  by (simp add: sortCompare_def compareFn_def)

lemma sorted_sortArray:
  assumes "\<forall>e \<in> set xs. getTime (newDate (eq_time e)) = Some (tv e)"
  shows "sorted_wrt (\<lambda>a b. tv b \<le> tv a) (sortArray (compareFn newDate) xs)"
  using assms
proof (induction xs)
  case Nil
  then show ?case by (simp add: sortArray_def)
next
  case (Cons x xs)
  have "\<forall>y \<in> set (sortArray (compareFn newDate) xs).
          (sortCompare (compareFn newDate) x y \<le> 0) = (tv y \<le> tv x)"
    using Cons.prems by (simp add: set_sortArray sortCompare_compareFn)
  moreover have "sorted_wrt (\<lambda>a b. tv b \<le> tv a) (sortArray (compareFn newDate) xs)"
    using Cons by simp
  ultimately have "sorted_wrt (\<lambda>a b. tv b \<le> tv a)
      (insertSorted (sortCompare (compareFn newDate)) x (sortArray (compareFn newDate) xs))"
    by (rule sorted_insertSorted)
  then show ?case by (simp add: sortArray_def)
qed

text \<open>
  C2, as amended. The selector throws nothing and returns exactly the records whose
  prefecture set contains the chosen prefecture, each as often as it occurs in the input;
  when the runtime reads the time of each of them as a valid date with time value \<open>tv\<close>,
  they are ordered by non-increasing time value.
\<close>

theorem selectCandidates_filtered_sorted:
  "\<exists>cands. selectCandidates newDate R P = Inr cands \<and>
     mset cands = mset (filter (hasPrefecture P) R) \<and>
     ((\<forall>e \<in> set R. hasPrefecture P e \<longrightarrow> getTime (newDate (eq_time e)) = Some (tv e)) \<longrightarrow>
      sorted_wrt (\<lambda>a b. tv b \<le> tv a) cands)"
proof -
  let ?cands = "sortArray (compareFn newDate) (filter (hasPrefecture P) R)"
  have "selectCandidates newDate R P = Inr ?cands"
    by (rule selectCandidates_eq)
  moreover have "mset ?cands = mset (filter (hasPrefecture P) R)"
    by (rule mset_sortArray)
  moreover have "(\<forall>e \<in> set R. hasPrefecture P e \<longrightarrow> getTime (newDate (eq_time e)) = Some (tv e)) \<longrightarrow>
      sorted_wrt (\<lambda>a b. tv b \<le> tv a) ?cands"
    by (auto intro: sorted_sortArray)
  ultimately show ?thesis by blast
qed

text \<open>
  C10. A record whose prefecture field is missing or null is rejected by the callback
  of the filter without a throw, although \<^verbatim>\<open>includes\<close> on that field would throw,
  and it is in no candidate list.
\<close>

theorem absent_pref_excluded:
  assumes "eq_pref e = None"
  shows "prefCallback p e = Inr False \<and> arrayIncludes (eq_pref e) p = Inl TypeError \<and>
         (\<exists>cands. selectCandidates newDate records p = Inr cands \<and> e \<notin> set cands)"
proof -
  from assms have "\<not> hasPrefecture p e"
    by (simp add: hasPrefecture_def)
  then have "e \<notin> set (sortArray (compareFn newDate) (filter (hasPrefecture p) records))"
    by (simp add: set_sortArray)
  with assms show ?thesis
    by (simp add: selectCandidates_eq prefCallback_def arrayIncludes_def)
qed

text \<open>
  C5. A response with records never makes the \<^verbatim>\<open>try\<close> block throw: the list is
  the ordered candidates and the selection is their first element, or null when there is
  none; an empty input and an input without a matching record give the empty list.
\<close>

theorem default_selection:
  "\<exists>cands. selectCandidates newDate R p = Inr cands \<and>
     fetchEarthquakes newDate p (Response True (Inr R)) =
       Inr (cands, case cands of [] \<Rightarrow> None | c # cs \<Rightarrow> Some c) \<and>
     (R = [] \<longrightarrow> cands = []) \<and>
     ((\<forall>e \<in> set R. \<not> hasPrefecture p e) \<longrightarrow> cands = [])"
proof -
  let ?cands = "sortArray (compareFn newDate) (filter (hasPrefecture p) R)"
  have 1: "selectCandidates newDate R p = Inr ?cands"
    by (rule selectCandidates_eq)
  have 2: "fetchEarthquakes newDate p (Response True (Inr R)) =
       Inr (?cands, case ?cands of [] \<Rightarrow> None | c # cs \<Rightarrow> Some c)"
    by (simp add: fetchEarthquakes_def 1 defaultSelection_def split: list.split)
  have 3: "R = [] \<longrightarrow> ?cands = []"
    by (simp add: sortArray_def)
  have 4: "(\<forall>e \<in> set R. \<not> hasPrefecture p e) \<longrightarrow> ?cands = []"
    by (simp add: sortArray_def filter_False)
  from 1 2 3 4 show ?thesis by blast
qed


section \<open>The selector on the example records\<close>

lemma example_candidates:
  "selectCandidates exampleNewDate [quakeB, quakeC, quakeA] tokyo = Inr [quakeA, quakeB]"
  by (simp add: selectCandidates_def prefCallback_def arrayIncludes_def quakeA_def quakeB_def quakeC_def
      sortArray_def sortCompare_def compareFn_def exampleNewDate_def tokyo_def hokkaido_def ascii_def)

theorem selectCandidates_filtered_sorted_witness:
  "selectCandidates exampleNewDate [quakeB, quakeC, quakeA] tokyo = Inr [quakeA, quakeB] \<and>
   mset [quakeA, quakeB] = mset (filter (hasPrefecture tokyo) [quakeB, quakeC, quakeA]) \<and>
   sorted_wrt (\<lambda>a b. exampleTimeValue b \<le> exampleTimeValue a) [quakeA, quakeB]"
proof -
  have hyp: "\<forall>e \<in> set [quakeB, quakeC, quakeA]. hasPrefecture tokyo e \<longrightarrow>
               getTime (exampleNewDate (eq_time e)) = Some (exampleTimeValue e)"
    by (simp add: exampleTimeValue_def exampleNewDate_def quakeA_def quakeB_def quakeC_def
        hasPrefecture_def ascii_def)
  from selectCandidates_filtered_sorted
         [of exampleNewDate "[quakeB, quakeC, quakeA]" tokyo exampleTimeValue]
  obtain cands where c: "selectCandidates exampleNewDate [quakeB, quakeC, quakeA] tokyo = Inr cands"
    "mset cands = mset (filter (hasPrefecture tokyo) [quakeB, quakeC, quakeA])"
    "(\<forall>e \<in> set [quakeB, quakeC, quakeA]. hasPrefecture tokyo e \<longrightarrow>
        getTime (exampleNewDate (eq_time e)) = Some (exampleTimeValue e)) \<longrightarrow>
     sorted_wrt (\<lambda>a b. exampleTimeValue b \<le> exampleTimeValue a) cands"
    by blast
  from c(1) have "cands = [quakeA, quakeB]"
    by (simp add: example_candidates)
  with c hyp show ?thesis by blast
qed

text \<open>
  C2 as stated fails when a kept record has a time the runtime does not read as a date:
  every comparison with that record is NaN, nothing is moved, and the older record stays
  in front of the newer one.
\<close>

theorem unreadable_time_order_counterexample:
  "hasPrefecture tokyo quakeB \<and> hasPrefecture tokyo quakeX \<and> hasPrefecture tokyo quakeA \<and>
   getTime (exampleNewDate (eq_time quakeB)) = Some 1741910700000 \<and>
   getTime (exampleNewDate (eq_time quakeX)) = None \<and>
   getTime (exampleNewDate (eq_time quakeA)) = Some 1742016600000 \<and>
   compareFn exampleNewDate quakeB quakeX = None \<and>
   compareFn exampleNewDate quakeX quakeB = None \<and>
   compareFn exampleNewDate quakeX quakeA = None \<and>
   compareFn exampleNewDate quakeA quakeX = None \<and>
   selectCandidates exampleNewDate [quakeB, quakeX, quakeA] tokyo = Inr [quakeB, quakeX, quakeA]"
proof -
  have t: "getTime (exampleNewDate (eq_time quakeB)) = Some 1741910700000"
    "getTime (exampleNewDate (eq_time quakeX)) = None"
    "getTime (exampleNewDate (eq_time quakeA)) = Some 1742016600000"
    by (simp_all add: exampleNewDate_def quakeA_def quakeB_def quakeX_def ascii_def)
  have h: "hasPrefecture tokyo quakeB" "hasPrefecture tokyo quakeX" "hasPrefecture tokyo quakeA"
    by (simp_all add: hasPrefecture_def quakeA_def quakeB_def quakeX_def)
  have c: "compareFn exampleNewDate quakeB quakeX = None"
    "compareFn exampleNewDate quakeX quakeB = None"
    "compareFn exampleNewDate quakeX quakeA = None"
    "compareFn exampleNewDate quakeA quakeX = None"
    by (simp_all add: compareFn_def t)
  have "sortArray (compareFn exampleNewDate) [quakeB, quakeX, quakeA] = [quakeB, quakeX, quakeA]"
    by (simp add: sortArray_def sortCompare_def c)
  then have s: "selectCandidates exampleNewDate [quakeB, quakeX, quakeA] tokyo =
      Inr [quakeB, quakeX, quakeA]"
    by (simp add: selectCandidates_eq h)
  from t h c s show ?thesis
    by simp
qed

theorem absent_pref_excluded_witness:
  "eq_pref quakeC = None \<and> prefCallback tokyo quakeC = Inr False \<and>
   arrayIncludes (eq_pref quakeC) tokyo = Inl TypeError \<and>
   selectCandidates exampleNewDate [quakeB, quakeC, quakeA] tokyo = Inr [quakeA, quakeB] \<and>
   quakeC \<notin> set [quakeA, quakeB]"
proof -
  have h: "eq_pref quakeC = None"
    by (simp add: quakeC_def)
  from absent_pref_excluded [OF h, of tokyo exampleNewDate "[quakeB, quakeC, quakeA]"] h
  show ?thesis
    by (auto simp: example_candidates)
qed

theorem default_selection_witness:
  "fetchEarthquakes exampleNewDate tokyo (Response True (Inr [quakeB, quakeC, quakeA])) =
     Inr ([quakeA, quakeB], Some quakeA) \<and>
   fetchEarthquakes exampleNewDate okinawa (Response True (Inr [quakeB, quakeC, quakeA])) =
     Inr ([], None) \<and>
   fetchEarthquakes exampleNewDate tokyo (Response True (Inr [])) = Inr ([], None)"
proof -
  have n: "\<forall>e \<in> set [quakeB, quakeC, quakeA]. \<not> hasPrefecture okinawa e"
    by (simp add: hasPrefecture_def quakeA_def quakeB_def quakeC_def okinawa_def tokyo_def hokkaido_def)
  from default_selection [of exampleNewDate "[quakeB, quakeC, quakeA]" tokyo]
  have 1: "fetchEarthquakes exampleNewDate tokyo (Response True (Inr [quakeB, quakeC, quakeA])) =
     Inr ([quakeA, quakeB], Some quakeA)"
    by (auto simp: example_candidates)
  from default_selection [of exampleNewDate "[quakeB, quakeC, quakeA]" okinawa] n
  have 2: "fetchEarthquakes exampleNewDate okinawa (Response True (Inr [quakeB, quakeC, quakeA])) =
     Inr ([], None)"
    by auto
  from default_selection [of exampleNewDate "[]" tokyo]
  have 3: "fetchEarthquakes exampleNewDate tokyo (Response True (Inr [])) = Inr ([], None)"
    by auto
  from 1 2 3 show ?thesis by simp
qed

section \<open>The application state\<close>

lemma runFilledEffect_fields [simp]:
  "selectedPref (runFilledEffect nd s) = selectedPref s"
  "earthquakes (runFilledEffect nd s) = earthquakes s"
  "selectedEq (runFilledEffect nd s) = selectedEq s"
  "template (runFilledEffect nd s) = template s"
  "pending (runFilledEffect nd s) = pending s"
  "loading (runFilledEffect nd s) = loading s"
  "error (runFilledEffect nd s) = error s"
  "filled (runFilledEffect nd s) =
     fst (filledEffect nd (selectedEq s) (template s) (selectedPref s))"
  by (simp_all add: runFilledEffect_def)

lemma startFetch_fields [simp]:
  "selectedPref (startFetch s) = selectedPref s"
  "earthquakes (startFetch s) = earthquakes s"
  "selectedEq (startFetch s) = selectedEq s"
  "template (startFetch s) = template s"
  "filled (startFetch s) = filled s"
  "pending (startFetch s) = pending s @ [selectedPref s]"
  "loading (startFetch s) = True"
  "error (startFetch s) = None"
  by (simp_all add: startFetch_def)

lemma reachable_filled:
  "reachable nd s \<Longrightarrow>
   filled s = fst (filledEffect nd (selectedEq s) (template s) (selectedPref s))"
proof (induction rule: reachable.induct)
  case reachable_mounted
  show ?case by (simp add: mounted_def)
next
  case (reachable_step s ev)
  then show ?case
    by (cases ev) (simp_all add: step_def Let_def split: sum.split prod.split)
qed

text \<open>
  C4. In every state the application reaches in which nothing is selected, the filled
  text is the fixed text of line 85, and the effect that produced it made no call of
  \<open>fillTemplate\<close>.
\<close>

theorem no_selection_sentinel:
  assumes "reachable newDate s" and "selectedEq s = None"
  shows "filled s =
           [0x8A72, 0x5F53, 0x3059, 0x308B, 0x5730, 0x9707, 0x304C, 0x3042, 0x308A, 0x307E,
            0x305B, 0x3093] \<and>
         snd (filledEffect newDate (selectedEq s) (template s) (selectedPref s)) = []"
  using reachable_filled [OF assms(1)] assms(2)
  by (simp add: filledEffect_def noEarthquake_def)


section \<open>The example states\<close>

lemma hokkaido_first: "PREFECTURES ! 0 = hokkaido"
  by (simp add: PREFECTURES_def hokkaido_def)

lemma example_in_PREFECTURES:
  "hokkaido \<in> set PREFECTURES" "aomori \<in> set PREFECTURES" "okinawa \<in> set PREFECTURES"
  by (simp_all add: PREFECTURES_def hokkaido_def aomori_def okinawa_def)

lemma example_hokkaido:
  "fetchEarthquakes exampleNewDate hokkaido (Response True (Inr [quakeB, quakeC, quakeA])) =
     Inr ([quakeA], Some quakeA)"
  by (simp add: fetchEarthquakes_def selectCandidates_def prefCallback_def arrayIncludes_def
      defaultSelection_def quakeA_def quakeB_def quakeC_def sortArray_def tokyo_def hokkaido_def)

lemma example_okinawa:
  "fetchEarthquakes exampleNewDate okinawa (Response True (Inr [quakeB, quakeC, quakeA])) =
     Inr ([], None)"
  by (simp add: fetchEarthquakes_def selectCandidates_def prefCallback_def arrayIncludes_def
      defaultSelection_def quakeA_def quakeB_def quakeC_def sortArray_def tokyo_def hokkaido_def
      okinawa_def)

lemma mounted_fields:
  "selectedPref (mounted nd) = hokkaido" "earthquakes (mounted nd) = []"
  "selectedEq (mounted nd) = None" "pending (mounted nd) = [hokkaido]"
  "loading (mounted nd) = True" "error (mounted nd) = None"
  by (simp_all add: mounted_def initialState_def hokkaido_first)

lemma loadedState_fields:
  "selectedPref loadedState = hokkaido" "earthquakes loadedState = [quakeA]"
  "selectedEq loadedState = Some quakeA" "pending loadedState = []"
  "loading loadedState = False" "error loadedState = None"
  by (simp_all add: loadedState_def step_def mounted_fields example_hokkaido)

lemma aomori_not_hokkaido: "aomori \<noteq> hokkaido" "okinawa \<noteq> hokkaido"
  by (simp_all add: aomori_def hokkaido_def okinawa_def)

lemma staleState_fields:
  "selectedPref staleState = aomori" "earthquakes staleState = [quakeA]"
  "selectedEq staleState = Some quakeA" "pending staleState = [aomori]"
  "loading staleState = True" "error staleState = None"
  by (simp_all add: staleState_def step_def loadedState_fields aomori_not_hokkaido)

lemma failedState_fields:
  "selectedPref failedState = aomori" "earthquakes failedState = [quakeA]"
  "selectedEq failedState = Some quakeA" "pending failedState = []"
  "loading failedState = False" "error failedState = Some (Error apiError)"
  by (simp_all add: failedState_def step_def staleState_fields fetchEarthquakes_def)

lemma reachable_loadedState: "reachable exampleNewDate loadedState"
  unfolding loadedState_def
  by (rule reachable_step [OF reachable_mounted]) (simp add: enabled_def mounted_fields)

lemma reachable_staleState: "reachable exampleNewDate staleState"
  unfolding staleState_def
  by (rule reachable_step [OF reachable_loadedState]) (simp add: enabled_def example_in_PREFECTURES)

lemma reachable_failedState: "reachable exampleNewDate failedState"
  unfolding failedState_def
  by (rule reachable_step [OF reachable_staleState]) (simp add: enabled_def staleState_fields)

lemma emptyState_fields:
  "selectedPref emptyState = okinawa" "earthquakes emptyState = []"
  "selectedEq emptyState = None" "pending emptyState = []"
  by (simp_all add: emptyState_def step_def loadedState_fields aomori_not_hokkaido example_okinawa)

lemma reachable_emptyState: "reachable exampleNewDate emptyState"
  unfolding emptyState_def
  by (rule reachable_step [OF reachable_step [OF reachable_loadedState]])
     (simp_all add: enabled_def example_in_PREFECTURES step_def loadedState_fields aomori_not_hokkaido)

theorem no_selection_sentinel_witness:
  "reachable exampleNewDate emptyState \<and> selectedPref emptyState = okinawa \<and>
   selectedEq emptyState = None \<and>
   filled emptyState =
     [0x8A72, 0x5F53, 0x3059, 0x308B, 0x5730, 0x9707, 0x304C, 0x3042, 0x308A, 0x307E,
      0x305B, 0x3093] \<and>
   snd (filledEffect exampleNewDate (selectedEq emptyState) (template emptyState)
          (selectedPref emptyState)) = []"
  using no_selection_sentinel [OF reachable_emptyState emptyState_fields(3)]
    reachable_emptyState emptyState_fields
  by simp

section \<open>What holds in every state\<close>

lemma fetchEarthquakes_Inr:
  assumes "fetchEarthquakes nd p outcome = Inr (filtered, sel)"
  shows "(\<forall>e \<in> set filtered. hasPrefecture p e) \<and> sel = defaultSelection filtered"
  using assms
  by (auto simp: fetchEarthquakes_def selectCandidates_eq set_sortArray
      split: fetch_outcome.splits if_splits sum.splits)

lemma defaultSelection_member: "defaultSelection xs = Some e \<Longrightarrow> e \<in> set xs"
  by (cases xs) (simp_all add: defaultSelection_def)

lemma reachable_invariant:
  "reachable nd s \<Longrightarrow>
   (\<forall>e. selectedEq s = Some e \<longrightarrow> e \<in> set (earthquakes s)) \<and>
   (\<exists>p \<in> set PREFECTURES. \<forall>e \<in> set (earthquakes s). hasPrefecture p e) \<and>
   set (pending s) \<subseteq> set PREFECTURES \<and> selectedPref s \<in> set PREFECTURES"
proof (induction rule: reachable.induct)
  case reachable_mounted
  have "hokkaido \<in> set PREFECTURES"
    by (simp add: PREFECTURES_def hokkaido_def)
  then show ?case
    by (auto simp: mounted_fields)
next
  case (reachable_step s ev)
  show ?case
  proof (cases ev)
    case (ChangePref p)
    with reachable_step show ?thesis
      by (auto simp: step_def enabled_def)
  next
    case (FetchSettled i outcome)
    with reachable_step have i: "i < length (pending s)"
      by (simp add: enabled_def)
    with reachable_step have p: "pending s ! i \<in> set PREFECTURES"
      by (meson nth_mem subsetD)
    have sub: "set (take i (pending s) @ drop (Suc i) (pending s)) \<subseteq> set PREFECTURES"
      using reachable_step.IH by (auto dest: in_set_takeD in_set_dropD)
    show ?thesis
    proof (cases "fetchEarthquakes nd (pending s ! i) outcome")
      case (Inl e)
      with FetchSettled reachable_step.IH sub show ?thesis
        by (simp add: step_def)
    next
      case (Inr r)
      obtain filtered sel where r: "r = (filtered, sel)"
        by (cases r)
      from fetchEarthquakes_Inr [OF Inr [unfolded r]]
      have f: "\<forall>e \<in> set filtered. hasPrefecture (pending s ! i) e"
        and d: "sel = defaultSelection filtered"
        by simp_all
      from d have "\<forall>e. sel = Some e \<longrightarrow> e \<in> set filtered"
        by (simp add: defaultSelection_member)
      with FetchSettled Inr r f p sub reachable_step.IH show ?thesis
        by (auto simp: step_def)
    qed
  next
    case (SelectEq v)
    with reachable_step.IH show ?thesis
      by (auto simp: step_def find_Some_iff)
  next
    case (EditTemplate t)
    with reachable_step.IH show ?thesis
      by (simp add: step_def)
  qed
qed

text \<open>
  C8, as amended. In every state the application reaches, the selected record, if there
  is one, is a member of the stored list, and the records of the stored list all have
  one of the 47 prefectures in their sets; when a pending request for a prefecture
  delivers records, list and selection become the candidates for that prefecture and
  their default selection; picking a prefecture changes neither the list nor the
  selection.
\<close>

theorem selection_in_stored_list:
  assumes "reachable newDate s"
  shows "(\<forall>e. selectedEq s = Some e \<longrightarrow> e \<in> set (earthquakes s)) \<and>
         (\<exists>p \<in> set PREFECTURES. \<forall>e \<in> set (earthquakes s). hasPrefecture p e) \<and>
         (\<forall>i R. i < length (pending s) \<longrightarrow>
            selectCandidates newDate R (pending s ! i) =
              Inr (earthquakes (step newDate s (FetchSettled i (Response True (Inr R))))) \<and>
            selectedEq (step newDate s (FetchSettled i (Response True (Inr R)))) =
              defaultSelection (earthquakes (step newDate s (FetchSettled i (Response True (Inr R)))))) \<and>
         (\<forall>p. earthquakes (step newDate s (ChangePref p)) = earthquakes s \<and>
              selectedEq (step newDate s (ChangePref p)) = selectedEq s)"
proof -
  have "\<forall>i R. selectCandidates newDate R (pending s ! i) =
              Inr (earthquakes (step newDate s (FetchSettled i (Response True (Inr R))))) \<and>
            selectedEq (step newDate s (FetchSettled i (Response True (Inr R)))) =
              defaultSelection (earthquakes (step newDate s (FetchSettled i (Response True (Inr R)))))"
    by (simp add: step_def fetchEarthquakes_def selectCandidates_eq)
  moreover have "\<forall>p. earthquakes (step newDate s (ChangePref p)) = earthquakes s \<and>
              selectedEq (step newDate s (ChangePref p)) = selectedEq s"
    by (simp add: step_def)
  ultimately show ?thesis
    using reachable_invariant [OF assms] by blast
qed

theorem selection_in_stored_list_witness:
  "reachable exampleNewDate loadedState \<and> selectedEq loadedState = Some quakeA \<and>
   quakeA \<in> set (earthquakes loadedState) \<and> selectedPref loadedState = hokkaido \<and>
   hasPrefecture hokkaido quakeA \<and>
   earthquakes (step exampleNewDate loadedState (ChangePref aomori)) = earthquakes loadedState \<and>
   selectedEq (step exampleNewDate loadedState (ChangePref aomori)) = selectedEq loadedState"
  using selection_in_stored_list [OF reachable_loadedState] reachable_loadedState
  by (simp add: loadedState_fields hasPrefecture_def quakeA_def)

text \<open>
  C8 as stated fails in the state right after the user has picked another prefecture:
  the selected record is the one of the prefecture before and is in no candidate list of
  the prefecture now selected. It stays so when the request for the new prefecture fails.
\<close>

theorem stale_selection_counterexample:
  "reachable exampleNewDate staleState \<and> selectedPref staleState = aomori \<and>
   selectedEq staleState = Some quakeA \<and> \<not> hasPrefecture aomori quakeA \<and>
   \<not> (\<exists>R cands. selectCandidates exampleNewDate R aomori = Inr cands \<and> quakeA \<in> set cands) \<and>
   reachable exampleNewDate failedState \<and> selectedPref failedState = aomori \<and>
   selectedEq failedState = Some quakeA \<and> loading failedState = False \<and> pending failedState = []"
proof -
  have n: "\<not> hasPrefecture aomori quakeA"
    by (simp add: hasPrefecture_def quakeA_def aomori_def hokkaido_def tokyo_def)
  then have "\<not> (\<exists>R cands. selectCandidates exampleNewDate R aomori = Inr cands \<and> quakeA \<in> set cands)"
    by (simp add: selectCandidates_eq set_sortArray)
  with n show ?thesis
    by (simp add: reachable_staleState reachable_failedState staleState_fields failedState_fields)
qed


section \<open>The chain of replacements and the single pass\<close>

lemma getSubstitution_plain: "0x24 \<notin> set v \<Longrightarrow> getSubstitution m f b v = v"
  by (induction m f b v rule: getSubstitution.induct) auto

lemma replaceFrom_plain_Cons:
  "0x24 \<notin> set v \<Longrightarrow> pat \<noteq> [] \<Longrightarrow>
   replaceFrom pat v front (c # cs) =
     (if prefix pat (c # cs) then v @ replaceFrom pat v (front @ pat) (drop (length pat) (c # cs))
      else c # replaceFrom pat v (front @ [c]) cs)"
  by (simp add: getSubstitution_plain)

lemma replaceFrom_front:
  "0x24 \<notin> set v \<Longrightarrow> pat \<noteq> [] \<Longrightarrow> replaceFrom pat v front s = replaceFrom pat v front' s"
proof (induction s arbitrary: front front' rule: length_induct)
  case (1 s)
  show ?case
  proof (cases s)
    case Nil
    with 1 show ?thesis by simp
  next
    case (Cons c cs)
    have short: "length (drop (length pat) (c # cs)) < length s"
      using 1(3) Cons by (cases pat) simp_all
    have a: "replaceFrom pat v (front @ pat) (drop (length pat) (c # cs)) =
             replaceFrom pat v (front' @ pat) (drop (length pat) (c # cs))"
      using 1 short by blast
    have b: "replaceFrom pat v (front @ [c]) cs = replaceFrom pat v (front' @ [c]) cs"
      using 1 Cons by simp
    show ?thesis
      unfolding Cons replaceFrom_plain_Cons [OF 1(2,3)] a b ..
  qed
qed

lemma replace_Nil: "pat \<noteq> [] \<Longrightarrow> replace [] pat v = []"
  by (simp add: replace_def)

lemma replace_hit:
  assumes "0x24 \<notin> set v" and "pat \<noteq> []"
  shows "replace (pat @ ys) pat v = v @ replace ys pat v"
proof -
  obtain c cs where p: "pat @ ys = c # cs"
    using assms(2) by (cases pat) simp_all
  have "prefix pat (c # cs)"
    using p by (metis prefixI)
  then have "replaceFrom pat v [] (c # cs) = v @ replaceFrom pat v ([] @ pat) (drop (length pat) (c # cs))"
    unfolding replaceFrom_plain_Cons [OF assms] by simp
  also have "drop (length pat) (c # cs) = ys"
    using p by (metis append_eq_conv_conj)
  also have "replaceFrom pat v ([] @ pat) ys = replaceFrom pat v [] ys"
    using assms by (rule replaceFrom_front)
  finally show ?thesis
    by (simp add: replace_def p)
qed

lemma replace_miss:
  assumes "0x24 \<notin> set v" and "pat \<noteq> []" and "\<not> prefix pat (c # cs)"
  shows "replace (c # cs) pat v = c # replace cs pat v"
proof -
  have "replaceFrom pat v [] (c # cs) = c # replaceFrom pat v ([] @ [c]) cs"
    unfolding replaceFrom_plain_Cons [OF assms(1,2)] using assms(3) by simp
  also have "replaceFrom pat v ([] @ [c]) cs = replaceFrom pat v [] cs"
    using assms(1,2) by (rule replaceFrom_front)
  finally show ?thesis
    by (simp add: replace_def)
qed

lemma replace_skip:
  assumes "0x24 \<notin> set v" and "p \<notin> set xs"
  shows "replace (xs @ ys) (p # ps) v = xs @ replace ys (p # ps) v"
  using assms(2)
proof (induction xs)
  case Nil
  show ?case by simp
next
  case (Cons x xs)
  then have "\<not> prefix (p # ps) (x # (xs @ ys))" by auto
  with assms(1) have "replace (x # (xs @ ys)) (p # ps) v = x # replace (xs @ ys) (p # ps) v"
    by (intro replace_miss) simp_all
  with Cons show ?case by simp
qed


lemma replace_prefix:
  assumes v: "0x24 \<notin> set v"
    and w: "p \<notin> set w"
    and suf: "\<forall>w'. suffix w' w \<longrightarrow> w' \<noteq> [] \<longrightarrow> \<not> prefix v w' \<and> \<not> prefix w' v"
  shows "prefix w (replace s (p # ps) v) = prefix w s"
  using w suf
proof (induction w arbitrary: s)
  case Nil
  show ?case by simp
next
  case (Cons d w)
  have d: "d \<noteq> p" using Cons.prems(1) by auto
  have self: "\<not> prefix v (d # w) \<and> \<not> prefix (d # w) v"
    using Cons.prems(2) by (simp add: suffix_order.refl)
  have suf': "\<forall>w'. suffix w' w \<longrightarrow> w' \<noteq> [] \<longrightarrow> \<not> prefix v w' \<and> \<not> prefix w' v"
    using Cons.prems(2) by (simp add: suffix_ConsI)
  have IH: "\<And>s. prefix w (replace s (p # ps) v) = prefix w s"
    using Cons.IH Cons.prems(1) suf' by simp
  show ?case
  proof (cases s)
    case Nil
    then show ?thesis by (simp add: replace_Nil)
  next
    case (Cons c cs)
    show ?thesis
    proof (cases "prefix (p # ps) (c # cs)")
      case True
      then obtain rest where rest: "c # cs = (p # ps) @ rest"
        by (auto simp: prefix_def)
      then have c: "c = p" by simp
      have "replace s (p # ps) v = v @ replace rest (p # ps) v"
        unfolding Cons rest using v by (intro replace_hit) simp_all
      moreover have "\<not> prefix (d # w) (v @ replace rest (p # ps) v)"
        using self prefix_same_cases [of "d # w" "v @ replace rest (p # ps) v" v] by auto
      ultimately show ?thesis
        using d c Cons by simp
    next
      case False
      with v have "replace (c # cs) (p # ps) v = c # replace cs (p # ps) v"
        by (intro replace_miss) simp_all
      then show ?thesis
        using IH Cons by simp
    qed
  qed
qed

lemma tokenLike_cases:
  assumes "tokenLike t"
  obtains w where "t = 0x7B # w" "w \<noteq> []" "0x7B \<notin> set w" "last w = 0x7D"
  using assms by (cases t) (auto simp: tokenLike_def)

lemma replace_token_prefix:
  assumes t: "tokenLike t" and t1: "tokenLike t1" and fits: "valueFits v t"
  shows "prefix t (c # replace cs t1 v) = prefix t (c # cs)"
proof -
  from t obtain w where w: "t = 0x7B # w" "w \<noteq> []" "0x7B \<notin> set w" "last w = 0x7D"
    by (rule tokenLike_cases)
  from t1 obtain w1 where w1: "t1 = 0x7B # w1"
    by (rule tokenLike_cases)
  have v: "0x24 \<notin> set v" "0x7D \<notin> set v" "\<not> sublist v t"
    using fits by (simp_all add: valueFits_def)
  have "\<forall>w'. suffix w' w \<longrightarrow> w' \<noteq> [] \<longrightarrow> \<not> prefix v w' \<and> \<not> prefix w' v"
  proof (intro allI impI conjI)
    fix w' assume s: "suffix w' w" and n: "w' \<noteq> []"
    show "\<not> prefix v w'"
    proof
      assume "prefix v w'"
      then have "sublist v w'" by (rule prefix_imp_sublist)
      with s have "sublist v w"
        by (meson sublist_order.order_trans suffix_imp_sublist)
      then have "sublist v t"
        unfolding w(1) by (simp add: sublist_Cons_right)
      with v(3) show False by simp
    qed
    from s n w(2) have "last w' = last w"
      by (auto simp: suffix_def)
    with n w(4) have "0x7D \<in> set w'"
      by (metis last_in_set)
    then show "\<not> prefix w' v"
      using v(2) by (auto dest: set_mono_prefix)
  qed
  with v(1) w(3) have "prefix w (replace cs (0x7B # w1) v) = prefix w cs"
    by (intro replace_prefix) simp_all
  then show ?thesis
    by (simp add: w(1) w1)
qed


lemma replaceChain_Nil: "replaceChain [] s = s"
  by (simp add: replaceChain_def)

lemma replaceChain_Cons: "replaceChain ((t, v) # table) s = replaceChain table (replace s t v)"
  by (simp add: replaceChain_def)

lemma replaceChain_append:
  "replaceChain (pre @ post) s = replaceChain post (replaceChain pre s)"
  by (simp add: replaceChain_def)

lemma fitTable_Cons: "fitTable (x # table) \<Longrightarrow> fitTable table"
  by (auto simp: fitTable_def)

lemma fitTable_entry:
  assumes "fitTable table" and "(t, v) \<in> set table"
  shows "tokenLike t" and "0x24 \<notin> set v" and "0x7B \<notin> set v" and "t \<noteq> []"
proof -
  from assms show t: "tokenLike t"
    by (auto simp: fitTable_def)
  from assms have "valueFits v t"
    by (fastforce simp: fitTable_def)
  then show "0x24 \<notin> set v" and "0x7B \<notin> set v"
    by (simp_all add: valueFits_def)
  from t show "t \<noteq> []"
    by (auto simp: tokenLike_def)
qed

lemma replaceChain_value:
  assumes "\<forall>(t, v) \<in> set table. tokenLike t \<and> 0x24 \<notin> set v" and "0x7B \<notin> set xs"
  shows "replaceChain table (xs @ ys) = xs @ replaceChain table ys"
  using assms(1)
proof (induction table arbitrary: ys)
  case Nil
  show ?case by (simp add: replaceChain_Nil)
next
  case (Cons x table)
  obtain t v where x: "x = (t, v)" by (cases x)
  from Cons.prems x have "tokenLike t" and v: "0x24 \<notin> set v" by simp_all
  then obtain w where w: "t = 0x7B # w" by (auto elim: tokenLike_cases)
  have "replace (xs @ ys) t v = xs @ replace ys t v"
    unfolding w using v assms(2) by (rule replace_skip)
  with Cons show ?case
    by (simp add: x replaceChain_Cons)
qed

lemma replaceChain_other_token:
  assumes "\<forall>(t, v) \<in> set table. tokenLike t \<and> 0x24 \<notin> set v \<and> \<not> prefix t tok \<and> \<not> prefix tok t"
    and "tokenLike tok"
  shows "replaceChain table (tok @ ys) = tok @ replaceChain table ys"
  using assms(1)
proof (induction table arbitrary: ys)
  case Nil
  show ?case by (simp add: replaceChain_Nil)
next
  case (Cons x table)
  obtain t v where x: "x = (t, v)" by (cases x)
  from Cons.prems x have t: "tokenLike t" and v: "0x24 \<notin> set v"
    and inc: "\<not> prefix t tok" "\<not> prefix tok t" by simp_all
  from t obtain w where w: "t = 0x7B # w" by (auto elim: tokenLike_cases)
  from assms(2) obtain u where u: "tok = 0x7B # u" "0x7B \<notin> set u" by (auto elim: tokenLike_cases)
  have "\<not> prefix t (tok @ ys)"
    using inc prefix_same_cases [of t "tok @ ys" tok] by auto
  then have "replace (0x7B # (u @ ys)) t v = 0x7B # replace (u @ ys) t v"
    using v w u by (intro replace_miss) simp_all
  also have "replace (u @ ys) t v = u @ replace ys t v"
    unfolding w using v u(2) by (rule replace_skip)
  finally have "replace (tok @ ys) t v = tok @ replace ys t v"
    by (simp add: u(1))
  with Cons show ?case
    by (simp add: x replaceChain_Cons)
qed

lemma replaceChain_no_token:
  assumes "fitTable table" and "\<forall>(t, v) \<in> set table. \<not> prefix t (c # cs)"
  shows "replaceChain table (c # cs) = c # replaceChain table cs"
  using assms
proof (induction table arbitrary: cs)
  case Nil
  show ?case by (simp add: replaceChain_Nil)
next
  case (Cons x table)
  obtain t1 v1 where x: "x = (t1, v1)" by (cases x)
  have t1: "tokenLike t1" "0x24 \<notin> set v1" "t1 \<noteq> []"
    using fitTable_entry [OF Cons.prems(1), of t1 v1] x by simp_all
  from Cons.prems(2) x have "\<not> prefix t1 (c # cs)" by simp
  with t1 have r: "replace (c # cs) t1 v1 = c # replace cs t1 v1"
    by (intro replace_miss)
  have "\<forall>(t, v) \<in> set table. \<not> prefix t (c # replace cs t1 v1)"
  proof (intro ballI, clarify)
    fix t v assume tv: "(t, v) \<in> set table" and p: "prefix t (c # replace cs t1 v1)"
    from Cons.prems(1) tv x have "tokenLike t" "valueFits v1 t"
      by (fastforce simp: fitTable_def)+
    with t1(1) have "prefix t (c # replace cs t1 v1) = prefix t (c # cs)"
      by (intro replace_token_prefix)
    with p Cons.prems(2) tv show False by auto
  qed
  with Cons.IH [OF fitTable_Cons [OF Cons.prems(1)]]
  have "replaceChain table (c # replace cs t1 v1) = c # replaceChain table (replace cs t1 v1)"
    by blast
  then show ?case
    by (simp add: x replaceChain_Cons r)
qed

lemma find_split:
  "find P xs = Some x \<Longrightarrow> \<exists>pre post. xs = pre @ x # post \<and> P x \<and> (\<forall>y \<in> set pre. \<not> P y)"
proof (induction xs)
  case Nil
  then show ?case by simp
next
  case (Cons a xs)
  show ?case
  proof (cases "P a")
    case True
    with Cons.prems have "a = x" by simp
    with True have "a # xs = [] @ x # xs \<and> P x \<and> (\<forall>y \<in> set []. \<not> P y)" by simp
    then show ?thesis by blast
  next
    case False
    with Cons obtain pre post where "xs = pre @ x # post" "P x" "\<forall>y \<in> set pre. \<not> P y"
      by auto
    with False have "a # xs = (a # pre) @ x # post \<and> P x \<and> (\<forall>y \<in> set (a # pre). \<not> P y)"
      by simp
    then show ?thesis by blast
  qed
qed

lemma replaceChain_onePass:
  assumes "fitTable table"
  shows "replaceChain table s = onePass table s"
proof (induction s rule: length_induct)
  case (1 s)
  show ?case
  proof (cases s)
    case Nil
    have "replaceChain table' [] = []" if "fitTable table'" for table'
      using that
    proof (induction table')
      case Nil
      show ?case by (simp add: replaceChain_Nil)
    next
      case (Cons x table')
      obtain t v where x: "x = (t, v)" by (cases x)
      from fitTable_entry(4) [OF Cons.prems, of t v] x have "t \<noteq> []" by simp
      with Cons show ?case
        by (simp add: x replaceChain_Cons replace_Nil fitTable_Cons)
    qed
    with assms Nil show ?thesis by simp
  next
    case (Cons c cs)
    let ?P = "\<lambda>(tok, v). tok \<noteq> [] \<and> prefix tok (c # cs)"
    show ?thesis
    proof (cases "find ?P table")
      case None
      then have "\<forall>(t, v) \<in> set table. \<not> prefix t (c # cs)"
        using fitTable_entry(4) [OF assms] by (fastforce simp: find_None_iff)
      with assms have "replaceChain table (c # cs) = c # replaceChain table cs"
        by (rule replaceChain_no_token)
      moreover have "replaceChain table cs = onePass table cs"
        using 1 Cons by simp
      ultimately show ?thesis
        using None Cons by simp
    next
      case (Some x)
      obtain tok v where x: "x = (tok, v)" by (cases x)
      from find_split [OF Some] x obtain pre post
        where split: "table = pre @ (tok, v) # post"
          and tok: "tok \<noteq> []" "prefix tok (c # cs)"
          and pre: "\<forall>y \<in> set pre. \<not> ?P y"
        by auto
      from tok(2) obtain rest where rest: "c # cs = tok @ rest"
        by (auto simp: prefix_def)
      have mem: "(tok, v) \<in> set table" using split by simp
      note e = fitTable_entry [OF assms mem]
      have "\<forall>(t, v') \<in> set pre. tokenLike t \<and> 0x24 \<notin> set v' \<and> \<not> prefix t tok \<and> \<not> prefix tok t"
      proof (intro ballI, clarify)
        fix t v' assume tv: "(t, v') \<in> set pre"
        then have m: "(t, v') \<in> set table" using split by simp
        from pre tv fitTable_entry(4) [OF assms m] have "\<not> prefix t (c # cs)" by auto
        with tok(2) have "t \<noteq> tok" by auto
        with assms m mem have "\<not> prefix t tok \<and> \<not> prefix tok t"
          by (fastforce simp: fitTable_def)
        with fitTable_entry [OF assms m]
        show "tokenLike t \<and> 0x24 \<notin> set v' \<and> \<not> prefix t tok \<and> \<not> prefix tok t" by simp
      qed
      then have a: "replaceChain pre (tok @ rest) = tok @ replaceChain pre rest"
        using e(1) by (rule replaceChain_other_token)
      have b: "replace (tok @ replaceChain pre rest) tok v = v @ replace (replaceChain pre rest) tok v"
        using e(2,4) by (rule replace_hit)
      have "\<forall>(t, v') \<in> set post. tokenLike t \<and> 0x24 \<notin> set v'"
        using fitTable_entry [OF assms] split by auto
      then have c: "replaceChain post (v @ replace (replaceChain pre rest) tok v) =
                 v @ replaceChain post (replace (replaceChain pre rest) tok v)"
        using e(3) by (rule replaceChain_value)
      have "replaceChain table (c # cs) = v @ replaceChain table rest"
        by (simp add: split replaceChain_append replaceChain_Cons rest a b c)
      moreover have "length rest < length s"
        using rest tok(1) Cons by (metis length_append length_greater_0_conv less_add_same_cancel2)
      then have "replaceChain table rest = onePass table rest"
        using 1 by simp
      moreover have "drop (length tok) (c # cs) = rest"
        using rest by simp
      ultimately show ?thesis
        using Some x Cons by simp
    qed
  qed
qed


lemma fillTemplate_replaceChain: "fillTemplate T F = replaceChain (tokenTable F) T"
  by (simp add: fillTemplate_def replaceChain_def tokenTable_def)

lemma tokens_tokenLike:
  "tokenLike (ascii ''{time}'')" "tokenLike (ascii ''{epicenter}'')"
  "tokenLike (ascii ''{magnitude}'')" "tokenLike (ascii ''{maxIntensity}'')"
  "tokenLike (ascii ''{prefecture}'')"
  by (simp_all add: tokenLike_def ascii_def)

lemma tokens_apart:
  "\<not> prefix (ascii ''{time}'') (ascii ''{epicenter}'')"
  "\<not> prefix (ascii ''{time}'') (ascii ''{magnitude}'')"
  "\<not> prefix (ascii ''{time}'') (ascii ''{maxIntensity}'')"
  "\<not> prefix (ascii ''{time}'') (ascii ''{prefecture}'')"
  "\<not> prefix (ascii ''{epicenter}'') (ascii ''{time}'')"
  "\<not> prefix (ascii ''{epicenter}'') (ascii ''{magnitude}'')"
  "\<not> prefix (ascii ''{epicenter}'') (ascii ''{maxIntensity}'')"
  "\<not> prefix (ascii ''{epicenter}'') (ascii ''{prefecture}'')"
  "\<not> prefix (ascii ''{magnitude}'') (ascii ''{time}'')"
  "\<not> prefix (ascii ''{magnitude}'') (ascii ''{epicenter}'')"
  "\<not> prefix (ascii ''{magnitude}'') (ascii ''{maxIntensity}'')"
  "\<not> prefix (ascii ''{magnitude}'') (ascii ''{prefecture}'')"
  "\<not> prefix (ascii ''{maxIntensity}'') (ascii ''{time}'')"
  "\<not> prefix (ascii ''{maxIntensity}'') (ascii ''{epicenter}'')"
  "\<not> prefix (ascii ''{maxIntensity}'') (ascii ''{magnitude}'')"
  "\<not> prefix (ascii ''{maxIntensity}'') (ascii ''{prefecture}'')"
  "\<not> prefix (ascii ''{prefecture}'') (ascii ''{time}'')"
  "\<not> prefix (ascii ''{prefecture}'') (ascii ''{epicenter}'')"
  "\<not> prefix (ascii ''{prefecture}'') (ascii ''{magnitude}'')"
  "\<not> prefix (ascii ''{prefecture}'') (ascii ''{maxIntensity}'')"
  by (simp_all add: ascii_def)

lemma plainValue_fits:
  assumes "plainValue v"
  shows "valueFits v (ascii ''{time}'')" "valueFits v (ascii ''{epicenter}'')"
    "valueFits v (ascii ''{magnitude}'')" "valueFits v (ascii ''{maxIntensity}'')"
    "valueFits v (ascii ''{prefecture}'')"
  using assms unfolding plainValue_def valueFits_def by blast+

lemma fitTable_tokenTable:
  assumes "plainValue (time F)" and "plainValue (epicenter F)" and "plainValue (magnitude F)"
    and "plainValue (maxIntensity F)" and "plainValue (prefecture F)"
  shows "fitTable (tokenTable F)"
  unfolding fitTable_def tokenTable_def
  by (simp add: tokens_tokenLike tokens_apart plainValue_fits [OF assms(1)]
      plainValue_fits [OF assms(2)] plainValue_fits [OF assms(3)]
      plainValue_fits [OF assms(4)] plainValue_fits [OF assms(5)])

text \<open>
  C1, as amended. When none of the five field values has a dollar sign or a brace or is
  a part of a token, \<open>fillTemplate\<close> is the single pass over the template: every
  occurrence of each of the five tokens is replaced by the value of its field as it is,
  and all other text of the template is unchanged.
\<close>

theorem fillTemplate_single_pass:
  assumes "plainValue (time F)" and "plainValue (epicenter F)" and "plainValue (magnitude F)"
    and "plainValue (maxIntensity F)" and "plainValue (prefecture F)"
  shows "fillTemplate T F = render_spec T F"
  unfolding fillTemplate_replaceChain render_spec_def
  by (rule replaceChain_onePass) (rule fitTable_tokenTable [OF assms])

theorem fillTemplate_single_pass_witness:
  "plainValue (ascii ''2025'' @ [0x5E74] @ ascii ''3'' @ [0x6708] @ ascii ''15'' @ [0x65E5] @ ascii '' 14:30'') \<and>
   plainValue [0x4E0D, 0x660E] \<and> plainValue (ascii ''6.1'') \<and> plainValue (ascii ''4'') \<and>
   plainValue tokyo \<and>
   fillTemplate (ascii ''{time} M{magnitude} {prefecture} {time}{x}'')
     \<lparr>time = ascii ''2025'' @ [0x5E74] @ ascii ''3'' @ [0x6708] @ ascii ''15'' @ [0x65E5] @ ascii '' 14:30'',
      epicenter = [0x4E0D, 0x660E], magnitude = ascii ''6.1'', maxIntensity = ascii ''4'',
      prefecture = tokyo\<rparr> =
   ascii ''2025'' @ [0x5E74] @ ascii ''3'' @ [0x6708] @ ascii ''15'' @ [0x65E5] @ ascii '' 14:30 M6.1 '' @
   tokyo @ ascii '' 2025'' @ [0x5E74] @ ascii ''3'' @ [0x6708] @ ascii ''15'' @ [0x65E5] @ ascii '' 14:30{x}''"
proof -
  let ?F = "\<lparr>time = ascii ''2025'' @ [0x5E74] @ ascii ''3'' @ [0x6708] @ ascii ''15'' @ [0x65E5] @ ascii '' 14:30'',
      epicenter = [0x4E0D, 0x660E], magnitude = ascii ''6.1'', maxIntensity = ascii ''4'',
      prefecture = tokyo\<rparr>"
  have p1: "plainValue (time ?F)"
    by (simp add: plainValue_def ascii_def sublist_Cons_right)
  have p2: "plainValue (epicenter ?F)"
    by (simp add: plainValue_def ascii_def sublist_Cons_right)
  have p3: "plainValue (magnitude ?F)"
    by (simp add: plainValue_def ascii_def sublist_Cons_right)
  have p4: "plainValue (maxIntensity ?F)"
    by (simp add: plainValue_def ascii_def sublist_Cons_right)
  have p5: "plainValue (prefecture ?F)"
    by (simp add: plainValue_def ascii_def tokyo_def sublist_Cons_right)
  have r: "render_spec (ascii ''{time} M{magnitude} {prefecture} {time}{x}'') ?F =
   ascii ''2025'' @ [0x5E74] @ ascii ''3'' @ [0x6708] @ ascii ''15'' @ [0x65E5] @ ascii '' 14:30 M6.1 '' @
   tokyo @ ascii '' 2025'' @ [0x5E74] @ ascii ''3'' @ [0x6708] @ ascii ''15'' @ [0x65E5] @ ascii '' 14:30{x}''"
    by (simp add: render_spec_def tokenTable_def ascii_def tokyo_def)
  from fillTemplate_single_pass [OF p1 p2 p3 p4 p5] r p1 p2 p3 p4 p5 show ?thesis
    by simp
qed

text \<open>
  C1 as stated fails in three ways. A value \<^verbatim>\<open>$&\<close> is expanded to the matched
  token by the replace of the runtime; a value that is a later token of the chain is
  replaced in turn; and a value that completes a later token from the text around it
  makes a token that is then replaced.
\<close>

theorem fillTemplate_not_literal_counterexample:
  "fillTemplate (ascii ''{epicenter}'')
     \<lparr>time = ascii ''t'', epicenter = ascii ''$&'', magnitude = ascii ''M6.1'',
      maxIntensity = ascii ''4'', prefecture = tokyo\<rparr> = ascii ''{epicenter}'' \<and>
   render_spec (ascii ''{epicenter}'')
     \<lparr>time = ascii ''t'', epicenter = ascii ''$&'', magnitude = ascii ''M6.1'',
      maxIntensity = ascii ''4'', prefecture = tokyo\<rparr> = ascii ''$&'' \<and>
   fillTemplate (ascii ''{epicenter}'')
     \<lparr>time = ascii ''t'', epicenter = ascii ''{magnitude}'', magnitude = ascii ''M6.1'',
      maxIntensity = ascii ''4'', prefecture = tokyo\<rparr> = ascii ''M6.1'' \<and>
   render_spec (ascii ''{epicenter}'')
     \<lparr>time = ascii ''t'', epicenter = ascii ''{magnitude}'', magnitude = ascii ''M6.1'',
      maxIntensity = ascii ''4'', prefecture = tokyo\<rparr> = ascii ''{magnitude}'' \<and>
   fillTemplate (ascii ''{ma{epicenter}nitude}'')
     \<lparr>time = ascii ''t'', epicenter = ascii ''g'', magnitude = ascii ''M6.1'',
      maxIntensity = ascii ''4'', prefecture = tokyo\<rparr> = ascii ''M6.1'' \<and>
   render_spec (ascii ''{ma{epicenter}nitude}'')
     \<lparr>time = ascii ''t'', epicenter = ascii ''g'', magnitude = ascii ''M6.1'',
      maxIntensity = ascii ''4'', prefecture = tokyo\<rparr> = ascii ''{magnitude}''"
  by (simp add: fillTemplate_def replace_def render_spec_def tokenTable_def ascii_def tokyo_def)


end
